theory Spec2Isabelle
  imports Complex_Main "HOL-Library.Word"
begin

section \<open>OpenXR data used by system.cpp\<close>

text \<open>
  The result codes that the three entry points of system.cpp return, and the enumerations
  they compare their arguments with. An enumeration argument of the C API can hold any
  integer; the constructors beside the ones the code tests stand for the other values.
\<close>

datatype XrResult =
    XR_SUCCESS
  | XR_ERROR_VALIDATION_FAILURE
  | XR_ERROR_HANDLE_INVALID
  | XR_ERROR_FORM_FACTOR_UNSUPPORTED
  | XR_ERROR_FORM_FACTOR_UNAVAILABLE
  | XR_ERROR_SYSTEM_INVALID
  | XR_ERROR_VIEW_CONFIGURATION_TYPE_UNSUPPORTED
  | XR_ERROR_SIZE_INSUFFICIENT

datatype XrStructureType =
    XR_TYPE_SYSTEM_GET_INFO
  | XR_TYPE_SYSTEM_PROPERTIES
  | XR_TYPE_SYSTEM_EYE_GAZE_INTERACTION_PROPERTIES_EXT
  | XR_TYPE_SYSTEM_HEADSET_ID_PROPERTIES_META
  | XR_TYPE_OTHER nat

datatype XrFormFactor =
    XR_FORM_FACTOR_HEAD_MOUNTED_DISPLAY
  | XR_FORM_FACTOR_HANDHELD_DISPLAY

datatype XrViewConfigurationType =
    XR_VIEW_CONFIGURATION_TYPE_PRIMARY_MONO
  | XR_VIEW_CONFIGURATION_TYPE_PRIMARY_STEREO
  | XR_VIEW_CONFIGURATION_TYPE_PRIMARY_QUAD_VARJO

datatype XrEnvironmentBlendMode =
    XR_ENVIRONMENT_BLEND_MODE_OPAQUE
  | XR_ENVIRONMENT_BLEND_MODE_ADDITIVE
  | XR_ENVIRONMENT_BLEND_MODE_ALPHA_BLEND

type_synonym XrInstance = "64 word"
type_synonym XrSystemId = "64 word"

text \<open>The input descriptor of xrGetSystem (its \<open>next\<close> pointer is never read).\<close>

record XrSystemGetInfo =
  gi_type :: XrStructureType
  formFactor :: XrFormFactor

text \<open>
  The output chain of xrGetSystemProperties: the structures reached from
  \<open>properties->next\<close> through their \<open>next\<close> pointers, in that order, up to the null
  pointer. Each structure carries its structure-kind tag; the code reads the tag and
  writes the payload of the two kinds it recognises. A finite list is a chain that ends.
\<close>

datatype chain_struct =
    EyeGazeInteractionProperties bool
  | HeadsetIdProperties "8 word list"
  | OtherStruct nat

fun struct_type :: "chain_struct \<Rightarrow> XrStructureType" where
  "struct_type (EyeGazeInteractionProperties _) = XR_TYPE_SYSTEM_EYE_GAZE_INTERACTION_PROPERTIES_EXT"
| "struct_type (HeadsetIdProperties _) = XR_TYPE_SYSTEM_HEADSET_ID_PROPERTIES_META"
| "struct_type (OtherStruct n) = XR_TYPE_OTHER n"

record XrSystemGraphicsProperties =
  maxSwapchainImageHeight :: "32 word"
  maxSwapchainImageWidth :: "32 word"
  maxLayerCount :: "32 word"

record XrSystemTrackingProperties =
  orientationTracking :: bool
  positionTracking :: bool

record XrSystemProperties =
  sp_type :: XrStructureType
  sp_next :: "chain_struct list"
  sp_systemId :: XrSystemId
  vendorId :: "32 word"
  systemName :: string
  graphicsProperties :: XrSystemGraphicsProperties
  trackingProperties :: XrSystemTrackingProperties

record XrFovf =
  angleLeft :: real
  angleRight :: real
  angleUp :: real
  angleDown :: real

section \<open>LibOVR data\<close>

text \<open>
  \<open>float\<close> and \<open>double\<close> values are idealised as real numbers (no rounding). The one
  non-finite value the file writes itself, \<open>INFINITY\<close> on line 278, is kept as a value
  of its own in the type of the calibration scalar and of the frame durations (the
  quotient of line 327 at a refresh rate of 0).
\<close>

datatype double_inf = Fin real | INFINITY

fun dless :: "double_inf \<Rightarrow> double_inf \<Rightarrow> bool" where
  "dless (Fin x) (Fin y) = (x < y)"
| "dless (Fin x) INFINITY = True"
| "dless INFINITY _ = False"

fun dle :: "double_inf \<Rightarrow> double_inf \<Rightarrow> bool" where
  "dle (Fin x) (Fin y) = (x \<le> y)"
| "dle _ INFINITY = True"
| "dle INFINITY (Fin y) = False"

text \<open>\<open>std::min(a, b)\<close> returns \<open>b\<close> when \<open>b < a\<close> and \<open>a\<close> otherwise.\<close>

definition std_min :: "double_inf \<Rightarrow> double_inf \<Rightarrow> double_inf" where
  "std_min a b = (if dless b a then b else a)"

text \<open>
  The backend's result codes: the four errors the code tests by name, success, and any
  other failure code.
\<close>

datatype ovrResult =
    ovrSuccess
  | ovrError_LibLoad
  | ovrError_ServiceConnection
  | ovrError_RemoteSession
  | ovrError_NoHmd
  | ovrError_Other

record ovrFovPort =
  UpTan :: real
  DownTan :: real
  LeftTan :: real
  RightTan :: real

record ovrPosef =
  Orientation :: "real \<times> real \<times> real \<times> real"
  Position :: "real \<times> real \<times> real"

record ovrEyeRenderDesc =
  Fov :: ovrFovPort
  HmdToEyePose :: ovrPosef

text \<open>
  The fields of \<open>ovrHmdDesc\<close> that the file reads. The character arrays hold C strings;
  a \<open>string\<close> here is the text before the terminating zero. Arrays of two, indexed by
  the eye, are functions of the index (\<open>ovrEye_Left = 0\<close>, \<open>ovrEye_Right = 1\<close>).
\<close>

record ovrHmdDesc =
  VendorId :: "16 word"
  ProductId :: "16 word"
  Manufacturer :: string
  ProductName :: string
  SerialNumber :: string
  FirmwareMajor :: "16 word"
  FirmwareMinor :: "16 word"
  ResolutionW :: int
  ResolutionH :: int
  DisplayRefreshRate :: real
  DefaultEyeFov :: "nat \<Rightarrow> ovrFovPort"

definition ovrEye_Left :: nat where "ovrEye_Left = 0"
definition ovrEye_Right :: nat where "ovrEye_Right = 1"

definition StereoView_Left :: nat where "StereoView_Left = 0"
definition StereoView_Right :: nat where "StereoView_Right = 1"
definition StereoView_Count :: nat where "StereoView_Count = 2"

definition ovrFovPort_zero :: ovrFovPort where
  "ovrFovPort_zero = \<lparr>UpTan = 0, DownTan = 0, LeftTan = 0, RightTan = 0\<rparr>"

text \<open>The value-initialised descriptor, \<open>m_cachedHmdInfo = {}\<close> on line 60.\<close>

definition ovrHmdDesc_zero :: ovrHmdDesc where
  "ovrHmdDesc_zero =
     \<lparr>VendorId = 0, ProductId = 0, Manufacturer = [], ProductName = [], SerialNumber = [],
      FirmwareMajor = 0, FirmwareMinor = 0, ResolutionW = 0, ResolutionH = 0,
      DisplayRefreshRate = 0, DefaultEyeFov = (\<lambda>_. ovrFovPort_zero)\<rparr>"

datatype EyeTracking = EyeTracking_None | EyeTracking_Mmf | EyeTracking_Simulated

section \<open>The runtime object and its collaborators\<close>

text \<open>
  Every call that leaves the runtime object (to the backend SDK, the host counter, the
  settings, the registry, the service probe, the eye-tracking source) is recorded in
  \<open>calls\<close>, in order. \<open>calls\<close> is not a member of the C++ class: it is the
  observation of what the code did to the outside. Logging and tracing (\<open>Log\<close>,
  \<open>OnceLog\<close>, \<open>TraceLoggingWrite\<close>, and the version string read for the log) are
  left out.
\<close>

datatype call =
    Call_IsServiceRunning
  | Call_getSetting string
  | Call_RegGetString
  | Call_ovr_InitializeWithPathOverride "string option"
  | Call_ovr_Create
  | Call_ovr_SetBool_IsVDXR
  | Call_ovr_GetTimeInSeconds
  | Call_QueryPerformanceFrequency
  | Call_QueryPerformanceCounter
  | Call_ovr_GetHmdDesc
  | Call_initializeEyeTrackingMmf
  | Call_ovr_GetRenderDesc nat
  | Call_ovr_GetFloat_EyeHeight
  | Call_ovr_SetTrackingOriginType_EyeLevel

record OpenXrRuntime =
  m_instanceCreated :: bool
  m_systemCreated :: bool
  has_XR_EXT_eye_gaze_interaction :: bool
  has_XR_META_headset_id :: bool
  m_useOculusRuntime :: bool
  m_isOVRLoaded :: bool
  m_ovrSession :: "nat option"
  m_adapterLuid :: "64 word"
  m_ovrTimeReference :: real
  m_qpcFrequency :: int
  m_ovrTimeFromQpcTimeOffset :: double_inf
  m_cachedHmdInfo :: ovrHmdDesc
  m_eyeTrackingType :: EyeTracking
  m_displayRefreshRate :: real
  m_idealFrameDuration :: double_inf
  m_predictedFrameDuration :: double_inf
  m_cachedEyeInfo :: "nat \<Rightarrow> ovrEyeRenderDesc"
  m_cachedEyeFov :: "nat \<Rightarrow> XrFovf"
  m_floorHeight :: real
  calls :: "call list"

text \<open>
  What the collaborators answer during one entry-point call. The backend SDK, the host
  counter, and the helpers \<open>IsServiceRunning\<close>, \<open>getSetting\<close>, \<open>RegGetString\<close>
  and \<open>initializeEyeTrackingMmf\<close> are declared outside system.cpp; their answers are
  parameters of the model. A setting is an integer (a flag is 0 or 1) or absent.
  \<open>path_append e p q\<close> is the text of the path \<open>p / q\<close>: the operator of
  \<open>std::filesystem::path\<close> is library code, whose rules for separators and root names
  are not written out here.
  \<open>ovr_Create\<close> answers with its result code, the session handle and the adapter
  LUID; \<open>m_ovrSession\<close> is \<open>None\<close> for the null pointer, a successful
  \<open>ovr_Create\<close> stores the handle and the LUID, and a failing one is taken to leave
  both untouched. \<open>ovr_GetTimeInSeconds e k\<close> is the answer to the k-th call of the
  backend clock within the bring-up (call 0 is the one on line 273, call \<open>i + 1\<close> the
  one of calibration round \<open>i\<close>), \<open>QueryPerformanceCounter e i\<close> the counter read
  in round \<open>i\<close>.
\<close>

record collaborators =
  IsServiceRunning :: bool
  getSetting :: "string \<Rightarrow> int option"
  RegGetString :: "string option"
  path_append :: "string \<Rightarrow> string \<Rightarrow> string"
  ovr_InitializeWithPathOverride :: "string option \<Rightarrow> ovrResult"
  ovr_Create :: "ovrResult \<times> nat \<times> 64 word"
  ovr_GetTimeInSeconds :: "nat \<Rightarrow> real"
  QueryPerformanceFrequency :: int
  QueryPerformanceCounter :: "nat \<Rightarrow> int"
  ovr_GetHmdDesc :: ovrHmdDesc
  initializeEyeTrackingMmf :: bool
  ovr_GetRenderDesc :: "nat \<Rightarrow> ovrFovPort \<Rightarrow> ovrEyeRenderDesc"
  ovr_GetFloat_EyeHeight :: real
  ovr_SetTrackingOriginType :: ovrResult

text \<open>
  A member function either returns, or an exception leaves it; in both cases the runtime
  object is as the code left it at that point.
\<close>

datatype exn = OvrFailure ovrResult | bad_optional_access

datatype 'a outcome = Returned 'a OpenXrRuntime | Threw exn OpenXrRuntime

fun state_of :: "'a outcome \<Rightarrow> OpenXrRuntime" where
  "state_of (Returned _ s) = s"
| "state_of (Threw _ s) = s"

fun returned :: "'a outcome \<Rightarrow> 'a option" where
  "returned (Returned v _) = Some v"
| "returned (Threw _ _) = None"


definition note_call :: "call \<Rightarrow> OpenXrRuntime \<Rightarrow> OpenXrRuntime" where
  "note_call c st = st\<lparr>calls := calls st @ [c]\<rparr>"

text \<open>
  Modelled from the spec: the macro \<open>CHECK_OVRCMD\<close> is declared outside system.cpp.
  The spec has every backend code that is not a success as fatal, aborting the bring-up;
  \<open>OVR_FAILURE\<close> is the test, and the abort is the \<open>Threw\<close> outcome.
\<close>

definition OVR_FAILURE :: "ovrResult \<Rightarrow> bool" where
  "OVR_FAILURE r = (r \<noteq> ovrSuccess)"

text \<open>\<open>std::optional::value_or\<close>.\<close>

definition value_or :: "'a option \<Rightarrow> 'a \<Rightarrow> 'a" where
  "value_or x d = (case x of None \<Rightarrow> d | Some v \<Rightarrow> v)"

section \<open>Bring-up: initializeOVR, ensureOVRSession, initializeSystem\<close>

text \<open>
  Lines 211 to 220: the override path is looked up only for the Virtual Desktop runtime.
  \<open>.value()\<close> on an empty optional throws. The path is the registry value with the
  file-name stem appended by the path operator.
\<close>

definition overridePath_of :: "collaborators \<Rightarrow> OpenXrRuntime \<Rightarrow> string outcome" where
  "overridePath_of e st =
     (if \<not> m_useOculusRuntime st then
        (case RegGetString e of
           None \<Rightarrow> Threw bad_optional_access (note_call Call_RegGetString st)
         | Some p \<Rightarrow> Returned (path_append e p ''VirtualDesktop.'') (note_call Call_RegGetString st))
      else Returned [] st)"

text \<open>
  Lines 203 to 247. The setting is read only when the service is not running (the
  \<open>&&\<close> is short-circuit); an absent setting counts as true.
\<close>

definition initializeOVR :: "collaborators \<Rightarrow> OpenXrRuntime \<Rightarrow> bool outcome" where
  "initializeOVR e st =
     (let s1 = (note_call Call_IsServiceRunning st)\<lparr>m_useOculusRuntime := \<not> IsServiceRunning e\<rparr>;
          s2 = (if m_useOculusRuntime s1 then note_call (Call_getSetting ''allow_oculus_runtime'') s1 else s1)
      in if m_useOculusRuntime s1 \<and> value_or (getSetting e ''allow_oculus_runtime'') 1 = 0
         then Returned False s2
         else
           (case overridePath_of e s2 of
              Threw x s \<Rightarrow> Threw x s
            | Returned overridePath s3 \<Rightarrow>
                (let arg = (if overridePath = [] then None else Some overridePath);
                     s4 = note_call (Call_ovr_InitializeWithPathOverride arg) s3;
                     result = ovr_InitializeWithPathOverride e arg
                 in if result = ovrError_LibLoad then Returned False s4
                    else if result = ovrError_ServiceConnection \<or> result = ovrError_RemoteSession
                    then Returned False s4
                    else if OVR_FAILURE result then Threw (OvrFailure result) s4
                    else Returned True (s4\<lparr>m_isOVRLoaded := True, m_ovrSession := None\<rparr>))))"

text \<open>Lines 336 to 347: the field-of-view angles of each eye, from the cached tangents.\<close>

definition eyeFov_of :: "ovrEyeRenderDesc \<Rightarrow> XrFovf" where
  "eyeFov_of d =
     \<lparr>angleLeft = - arctan (LeftTan (Fov d)), angleRight = arctan (RightTan (Fov d)),
      angleUp = arctan (UpTan (Fov d)), angleDown = - arctan (DownTan (Fov d))\<rparr>"

function cacheEyeFov :: "nat \<Rightarrow> OpenXrRuntime \<Rightarrow> OpenXrRuntime" where
  "cacheEyeFov i st =
     (if i < StereoView_Count
      then cacheEyeFov (Suc i)
             (st\<lparr>m_cachedEyeFov := (m_cachedEyeFov st)(i := eyeFov_of (m_cachedEyeInfo st i))\<rparr>)
      else st)"
  by pat_completeness auto
termination
  by (relation "measure (\<lambda>(i, st). StereoView_Count - i)") auto

text \<open>
  The quotient \<open>1.0 / x\<close> of line 327: not finite when the refresh rate is 0.
\<close>

definition one_over :: "real \<Rightarrow> double_inf" where
  "one_over x = (if x = 0 then INFINITY else Fin (1 / x))"

text \<open>Lines 312 to 347: the body of the device-changed branch.\<close>

definition cacheDevice :: "collaborators \<Rightarrow> ovrHmdDesc \<Rightarrow> OpenXrRuntime \<Rightarrow> OpenXrRuntime" where
  "cacheDevice e hmdInfo st =
     (let s1 = st\<lparr>m_cachedHmdInfo := hmdInfo, m_eyeTrackingType := EyeTracking_None\<rparr>;
          s2 = note_call (Call_getSetting ''simulate_eye_tracking'') s1;
          s3 = (if value_or (getSetting e ''simulate_eye_tracking'') 0 = 0
                then (let s = note_call Call_initializeEyeTrackingMmf s2
                      in if initializeEyeTrackingMmf e then s\<lparr>m_eyeTrackingType := EyeTracking_Mmf\<rparr> else s)
                else s2\<lparr>m_eyeTrackingType := EyeTracking_Simulated\<rparr>);
          s4 = s3\<lparr>m_displayRefreshRate := DisplayRefreshRate hmdInfo,
                  m_predictedFrameDuration := one_over (DisplayRefreshRate hmdInfo),
                  m_idealFrameDuration := one_over (DisplayRefreshRate hmdInfo)\<rparr>;
          s5 = (note_call (Call_ovr_GetRenderDesc ovrEye_Left) s4)
                 \<lparr>m_cachedEyeInfo := (m_cachedEyeInfo s4)
                    (StereoView_Left := ovr_GetRenderDesc e ovrEye_Left
                                          (DefaultEyeFov (m_cachedHmdInfo s4) ovrEye_Left))\<rparr>;
          s6 = (note_call (Call_ovr_GetRenderDesc ovrEye_Right) s5)
                 \<lparr>m_cachedEyeInfo := (m_cachedEyeInfo s5)
                    (StereoView_Right := ovr_GetRenderDesc e ovrEye_Right
                                           (DefaultEyeFov (m_cachedHmdInfo s5) ovrEye_Right))\<rparr>;
          s7 = (note_call Call_ovr_GetFloat_EyeHeight s6)\<lparr>m_floorHeight := ovr_GetFloat_EyeHeight e\<rparr>
      in cacheEyeFov 0 s7)"

text \<open>Lines 293 to 352.\<close>

definition initializeSystem :: "collaborators \<Rightarrow> OpenXrRuntime \<Rightarrow> unit outcome" where
  "initializeSystem e st =
     (let s0 = note_call Call_ovr_GetHmdDesc st;
          hmdInfo = ovr_GetHmdDesc e;
          s1 = (if SerialNumber (m_cachedHmdInfo s0) \<noteq> SerialNumber hmdInfo
                then cacheDevice e hmdInfo s0 else s0);
          s2 = note_call Call_ovr_SetTrackingOriginType_EyeLevel s1
      in if OVR_FAILURE (ovr_SetTrackingOriginType e)
         then Threw (OvrFailure (ovr_SetTrackingOriginType e)) s2
         else Returned () s2)"

text \<open>
  Lines 280 to 283: one calibration round, and the loop of 100 rounds. The raw offset of
  round \<open>i\<close> is the backend time minus the counter divided by the stored frequency.
\<close>

definition calibration_round :: "collaborators \<Rightarrow> nat \<Rightarrow> OpenXrRuntime \<Rightarrow> OpenXrRuntime" where
  "calibration_round e i st =
     (let s1 = note_call Call_QueryPerformanceCounter st;
          now = QueryPerformanceCounter e i;
          qpcTime = real_of_int now / real_of_int (m_qpcFrequency s1);
          s2 = note_call Call_ovr_GetTimeInSeconds s1
      in s2\<lparr>m_ovrTimeFromQpcTimeOffset :=
              std_min (m_ovrTimeFromQpcTimeOffset s2) (Fin (ovr_GetTimeInSeconds e (Suc i) - qpcTime))\<rparr>)"

function calibrate :: "collaborators \<Rightarrow> nat \<Rightarrow> OpenXrRuntime \<Rightarrow> OpenXrRuntime" where
  "calibrate e i st =
     (if i < 100 then calibrate e (Suc i) (calibration_round e i st) else st)"
  by pat_completeness auto
termination
  by (relation "measure (\<lambda>(e, i, st). 100 - i)") auto

text \<open>
  Lines 266 to 278, between the creation of the session and the calibration loop: the
  session is tagged for Virtual Desktop, the time reference and the counter frequency are
  read once, and the calibration scalar starts at \<open>INFINITY\<close>.
\<close>

definition startCalibration :: "collaborators \<Rightarrow> OpenXrRuntime \<Rightarrow> OpenXrRuntime" where
  "startCalibration e s2 =
     (let s3 = (if \<not> m_useOculusRuntime s2 then note_call Call_ovr_SetBool_IsVDXR s2 else s2);
          s4 = (note_call Call_ovr_GetTimeInSeconds s3)
                 \<lparr>m_ovrTimeReference := ovr_GetTimeInSeconds e 0\<rparr>;
          s5 = (note_call Call_QueryPerformanceFrequency s4)
                 \<lparr>m_qpcFrequency := QueryPerformanceFrequency e\<rparr>
      in s5\<lparr>m_ovrTimeFromQpcTimeOffset := INFINITY\<rparr>)"

text \<open>Lines 249 to 291.\<close>

definition ensureOVRSession :: "collaborators \<Rightarrow> OpenXrRuntime \<Rightarrow> bool outcome" where
  "ensureOVRSession e st =
     (if m_ovrSession st \<noteq> None then Returned True st
      else
        (case (if \<not> m_isOVRLoaded st then initializeOVR e st else Returned True st) of
           Threw x s \<Rightarrow> Threw x s
         | Returned loaded s0 \<Rightarrow>
             if \<not> loaded then Returned False s0
             else
               (let s1 = note_call Call_ovr_Create s0;
                    result = fst (ovr_Create e)
                in if result = ovrError_NoHmd then Returned False s1
                   else if OVR_FAILURE result then Threw (OvrFailure result) s1
                   else
                     (let s2 = s1\<lparr>m_ovrSession := Some (fst (snd (ovr_Create e))),
                                    m_adapterLuid := snd (snd (ovr_Create e))\<rparr>;
                          s6 = calibrate e 0 (startCalibration e s2)
                      in (case initializeSystem e s6 of
                            Threw x s \<Rightarrow> Threw x s
                          | Returned _ s \<Rightarrow> Returned True s)))))"

text \<open>
  The raw offset of calibration round \<open>i\<close> in the spec's words: the backend time read
  in that round minus the host counter read in that round divided by the counter
  frequency.
\<close>

definition raw_offset :: "collaborators \<Rightarrow> nat \<Rightarrow> real" where
  "raw_offset e i =
     ovr_GetTimeInSeconds e (Suc i)
       - real_of_int (QueryPerformanceCounter e i) / real_of_int (QueryPerformanceFrequency e)"

text \<open>
  The groups of members the claims speak of: the calibration (time reference, counter
  frequency, calibration scalar) and the state derived from the device identity.
\<close>

definition calibration_of :: "OpenXrRuntime \<Rightarrow> real \<times> int \<times> double_inf" where
  "calibration_of st = (m_ovrTimeReference st, m_qpcFrequency st, m_ovrTimeFromQpcTimeOffset st)"

definition derived_of ::
  "OpenXrRuntime \<Rightarrow> EyeTracking \<times> real \<times> double_inf \<times> double_inf
     \<times> (nat \<Rightarrow> ovrEyeRenderDesc) \<times> (nat \<Rightarrow> XrFovf) \<times> real" where
  "derived_of st =
     (m_eyeTrackingType st, m_displayRefreshRate st, m_idealFrameDuration st,
      m_predictedFrameDuration st, m_cachedEyeInfo st, m_cachedEyeFov st, m_floorHeight st)"






section \<open>The entry points\<close>

text \<open>
  Lines 40 to 71. \<open>systemId\<close> is what the caller's variable holds before the call; the
  result carries what it holds after.
\<close>

definition xrGetSystem ::
  "collaborators \<Rightarrow> OpenXrRuntime \<Rightarrow> XrInstance \<Rightarrow> XrSystemGetInfo \<Rightarrow> XrSystemId
     \<Rightarrow> (XrResult \<times> XrSystemId) outcome" where
  "xrGetSystem e st inst getInfo systemId =
     (if gi_type getInfo \<noteq> XR_TYPE_SYSTEM_GET_INFO
      then Returned (XR_ERROR_VALIDATION_FAILURE, systemId) st
      else if \<not> m_instanceCreated st \<or> inst \<noteq> 1
      then Returned (XR_ERROR_HANDLE_INVALID, systemId) st
      else if formFactor getInfo \<noteq> XR_FORM_FACTOR_HEAD_MOUNTED_DISPLAY
      then Returned (XR_ERROR_FORM_FACTOR_UNSUPPORTED, systemId) st
      else
        (case ensureOVRSession e st of
           Threw x s \<Rightarrow> Threw x s
         | Returned ok s \<Rightarrow>
             if \<not> ok
             then Returned (XR_ERROR_FORM_FACTOR_UNAVAILABLE, systemId) (s\<lparr>m_cachedHmdInfo := ovrHmdDesc_zero\<rparr>)
             else Returned (XR_SUCCESS, 1) (s\<lparr>m_systemCreated := True\<rparr>)))"

text \<open>
  Lines 94 to 109: each of the two loops follows the \<open>next\<close> pointers and stops at the
  first structure with the tag it looks for, or at the end of the chain. The result is
  the position of that structure.
\<close>

fun find_in_chain :: "XrStructureType \<Rightarrow> chain_struct list \<Rightarrow> nat option" where
  "find_in_chain ty [] = None"
| "find_in_chain ty (s # rest) =
     (if struct_type s = ty then Some 0 else map_option Suc (find_in_chain ty rest))"

text \<open>
  Modelled from the spec: \<open>ovrMaxLayerCount\<close>, the spec's fixed backend-defined
  constant, is declared in the backend SDK's header and not in system.cpp; it is 16
  there, and line 119 asserts that it is at least the 16 layers OpenXR requires.
  \<open>XR_MAX_SYSTEM_NAME_SIZE\<close>, the size of the fixed-size buffer \<open>systemName\<close>, is
  256 in the OpenXR header.
\<close>

definition ovrMaxLayerCount :: "32 word" where
  "ovrMaxLayerCount = 16"

definition XR_MAX_SYSTEM_NAME_SIZE :: nat where
  "XR_MAX_SYSTEM_NAME_SIZE = 256"

text \<open>
  \<open>sprintf_s(buffer, sizeOfBuffer, "%s", s)\<close>: the text fits when it and its terminating zero
  take at most \<open>sizeOfBuffer\<close> bytes; otherwise the C runtime's invalid-parameter handler ends
  the process (\<open>None\<close>).
\<close>

definition sprintf_s :: "nat \<Rightarrow> string \<Rightarrow> string option" where
  "sprintf_s sizeOfBuffer s = (if length s < sizeOfBuffer then Some s else None)"

definition headset_uuid :: "8 word list" where
  "headset_uuid = [82, 80, 120, 165, 90, 171, 77, 201, 184, 2, 30, 189, 108, 124, 255, 244]"

text \<open>
  Lines 74 to 151. The function reads the runtime object and writes only the caller's
  structures; the result is the code returned and the caller's \<open>properties\<close> (with its
  chain) after the call.
\<close>

definition xrGetSystemProperties ::
  "OpenXrRuntime \<Rightarrow> XrInstance \<Rightarrow> XrSystemId \<Rightarrow> XrSystemProperties
     \<Rightarrow> (XrResult \<times> XrSystemProperties) option" where
  "xrGetSystemProperties st inst systemId properties =
     (if sp_type properties \<noteq> XR_TYPE_SYSTEM_PROPERTIES
      then Some (XR_ERROR_VALIDATION_FAILURE, properties)
      else if \<not> m_instanceCreated st \<or> inst \<noteq> 1
      then Some (XR_ERROR_HANDLE_INVALID, properties)
      else if \<not> m_systemCreated st \<or> systemId \<noteq> 1
      then Some (XR_ERROR_SYSTEM_INVALID, properties)
      else
        (let eyeGazeInteractionProperties =
               find_in_chain XR_TYPE_SYSTEM_EYE_GAZE_INTERACTION_PROPERTIES_EXT (sp_next properties);
             headsetIdProperties =
               find_in_chain XR_TYPE_SYSTEM_HEADSET_ID_PROPERTIES_META (sp_next properties)
         in (case sprintf_s XR_MAX_SYSTEM_NAME_SIZE (ProductName (m_cachedHmdInfo st)) of
               None \<Rightarrow> None
             | Some name \<Rightarrow>
                 (let p1 = properties
                        \<lparr>vendorId := scast (VendorId (m_cachedHmdInfo st)),
                         systemName := name,
                         sp_systemId := systemId,
                         trackingProperties := \<lparr>orientationTracking = True, positionTracking = True\<rparr>,
                         graphicsProperties :=
                           \<lparr>maxSwapchainImageHeight = 16384, maxSwapchainImageWidth = 16384,
                            maxLayerCount = ovrMaxLayerCount\<rparr>\<rparr>;
                      p2 = (case eyeGazeInteractionProperties of
                              Some i \<Rightarrow>
                                if has_XR_EXT_eye_gaze_interaction st
                                then p1\<lparr>sp_next := (sp_next p1)
                                        [i := EyeGazeInteractionProperties
                                                (m_eyeTrackingType st \<noteq> EyeTracking_None)]\<rparr>
                                else p1
                            | None \<Rightarrow> p1);
                      p3 = (case headsetIdProperties of
                              Some j \<Rightarrow>
                                if has_XR_META_headset_id st
                                then p2\<lparr>sp_next := (sp_next p2)[j := HeadsetIdProperties headset_uuid]\<rparr>
                                else p2
                            | None \<Rightarrow> p2)
                  in Some (XR_SUCCESS, p3)))))"

text \<open>
  Lines 154 to 201. \<open>blendModes\<close> is the static table of line 161. The caller's count
  variable and buffer are given as they are before the call (\<open>None\<close> for a null buffer
  pointer) and returned as they are after it.
\<close>

definition blendModes :: "XrEnvironmentBlendMode list" where
  "blendModes = [XR_ENVIRONMENT_BLEND_MODE_OPAQUE]"

function copyBlendModes ::
  "XrEnvironmentBlendMode list \<Rightarrow> 32 word \<Rightarrow> 32 word \<Rightarrow> XrEnvironmentBlendMode list
     \<Rightarrow> XrEnvironmentBlendMode list" where
  "copyBlendModes table countOutput i buf =
     (if i < countOutput
      then copyBlendModes table countOutput (i + 1) (buf[unat i := table ! unat i])
      else buf)"
  by pat_completeness auto
termination
proof (relation "measure (\<lambda>(table, c, i, buf). unat c - unat i)")
  show "wf (measure (\<lambda>(table, c, i, buf). unat c - unat i))" by simp
next
  fix table buf :: "XrEnvironmentBlendMode list" and countOutput i :: "32 word"
  assume lt: "i < countOutput"
  have "i \<noteq> - 1" using lt by (metis word_order.extremum_strict)
  then have "1 + i \<noteq> 0" by (metis add_eq_0_iff)
  then have "unat (i + 1) = Suc (unat i)" using unatSuc [of i] by (simp add: add.commute)
  moreover have "unat i < unat countOutput" using lt by (simp add: word_less_nat_alt)
  ultimately show "((table, countOutput, i + 1, buf[unat i := table ! unat i]), (table, countOutput, i, buf))
       \<in> measure (\<lambda>(table, c, i, buf). unat c - unat i)" by simp
qed

definition xrEnumerateEnvironmentBlendModes ::
  "OpenXrRuntime \<Rightarrow> XrInstance \<Rightarrow> XrSystemId \<Rightarrow> XrViewConfigurationType \<Rightarrow> 32 word \<Rightarrow> 32 word
     \<Rightarrow> XrEnvironmentBlendMode list option
     \<Rightarrow> XrResult \<times> 32 word \<times> XrEnvironmentBlendMode list option" where
  "xrEnumerateEnvironmentBlendModes st inst systemId viewConfigurationType
       environmentBlendModeCapacityInput environmentBlendModeCountOutput environmentBlendModes =
     (if \<not> m_instanceCreated st \<or> inst \<noteq> 1
      then (XR_ERROR_HANDLE_INVALID, environmentBlendModeCountOutput, environmentBlendModes)
      else if \<not> m_systemCreated st \<or> systemId \<noteq> 1
      then (XR_ERROR_SYSTEM_INVALID, environmentBlendModeCountOutput, environmentBlendModes)
      else if viewConfigurationType \<noteq> XR_VIEW_CONFIGURATION_TYPE_PRIMARY_STEREO
      then (XR_ERROR_VIEW_CONFIGURATION_TYPE_UNSUPPORTED, environmentBlendModeCountOutput,
            environmentBlendModes)
      else if environmentBlendModeCapacityInput \<noteq> 0
              \<and> unat environmentBlendModeCapacityInput < length blendModes
      then (XR_ERROR_SIZE_INSUFFICIENT, environmentBlendModeCountOutput, environmentBlendModes)
      else
        (let countOutput = of_nat (length blendModes)
         in (XR_SUCCESS, countOutput,
             (case environmentBlendModes of
                Some buf \<Rightarrow>
                  if environmentBlendModeCapacityInput \<noteq> 0
                  then Some (copyBlendModes blendModes countOutput 0 buf)
                  else Some buf
              | None \<Rightarrow> None))))"

text \<open>The outside calls that initializeOVR can make.\<close>

definition bringup_probe_call :: "call \<Rightarrow> bool" where
  "bringup_probe_call c =
     (case c of Call_IsServiceRunning \<Rightarrow> True | Call_getSetting _ \<Rightarrow> True | Call_RegGetString \<Rightarrow> True
      | Call_ovr_InitializeWithPathOverride _ \<Rightarrow> True | _ \<Rightarrow> False)"

section \<open>Concrete inputs\<close>

text \<open>
  The runtime object before any instance exists, a headset descriptor, a runtime object
  with a live session, and the answers of collaborators for which every step of the
  bring-up succeeds. In \<open>vd_answers\<close> the counter runs at 10 MHz and advances one
  millisecond per round; the backend clock is 50 seconds ahead of it, read half a
  millisecond late in every round but round 42.
\<close>

definition rt_zero :: OpenXrRuntime where
  "rt_zero =
     \<lparr>m_instanceCreated = False, m_systemCreated = False,
      has_XR_EXT_eye_gaze_interaction = False, has_XR_META_headset_id = False,
      m_useOculusRuntime = False, m_isOVRLoaded = False, m_ovrSession = None,
      m_adapterLuid = 0, m_ovrTimeReference = 0, m_qpcFrequency = 0,
      m_ovrTimeFromQpcTimeOffset = Fin 0, m_cachedHmdInfo = ovrHmdDesc_zero,
      m_eyeTrackingType = EyeTracking_None, m_displayRefreshRate = 0,
      m_idealFrameDuration = Fin 0, m_predictedFrameDuration = Fin 0,
      m_cachedEyeInfo = (\<lambda>_. \<lparr>Fov = ovrFovPort_zero,
                                  HmdToEyePose = \<lparr>Orientation = (0, 0, 0, 0), Position = (0, 0, 0)\<rparr>\<rparr>),
      m_cachedEyeFov = (\<lambda>_. \<lparr>angleLeft = 0, angleRight = 0, angleUp = 0, angleDown = 0\<rparr>),
      m_floorHeight = 0, calls = []\<rparr>"

definition hmd_quest :: ovrHmdDesc where
  "hmd_quest =
     \<lparr>VendorId = 0x2833, ProductId = 0x0186, Manufacturer = ''Oculus'', ProductName = ''Oculus Quest2'',
      SerialNumber = ''1WMHH000X00000'', FirmwareMajor = 1, FirmwareMinor = 0,
      ResolutionW = 3664, ResolutionH = 1920, DisplayRefreshRate = 90,
      DefaultEyeFov = (\<lambda>eye. if eye = 0 then \<lparr>UpTan = 1, DownTan = 2, LeftTan = 3, RightTan = 4\<rparr>
                              else \<lparr>UpTan = 1, DownTan = 2, LeftTan = 4, RightTan = 3\<rparr>)\<rparr>"

definition rt_live :: OpenXrRuntime where
  "rt_live = rt_zero\<lparr>m_instanceCreated := True, m_systemCreated := True, m_isOVRLoaded := True,
                      m_ovrSession := Some 1, m_cachedHmdInfo := hmd_quest,
                      m_eyeTrackingType := EyeTracking_Mmf\<rparr>"

definition vd_answers :: collaborators where
  "vd_answers =
     \<lparr>IsServiceRunning = True, getSetting = (\<lambda>_. None), RegGetString = Some ''C:/VD'',
      path_append = (\<lambda>p q. p @ [CHR 0x5C] @ q),
      ovr_InitializeWithPathOverride = (\<lambda>_. ovrSuccess), ovr_Create = (ovrSuccess, 1, 0xABCD),
      ovr_GetTimeInSeconds = (\<lambda>k. 52 + (real k - 1) / 1000 + (if k = 43 then 0 else 1 / 2000)),
      QueryPerformanceFrequency = 10000000,
      QueryPerformanceCounter = (\<lambda>i. 20000000 + 10000 * int i),
      ovr_GetHmdDesc = hmd_quest, initializeEyeTrackingMmf = True,
      ovr_GetRenderDesc = (\<lambda>eye fov. \<lparr>Fov = fov,
         HmdToEyePose = \<lparr>Orientation = (0, 0, 0, 1), Position = (if eye = 0 then - 0.032 else 0.032, 0, 0)\<rparr>\<rparr>),
      ovr_GetFloat_EyeHeight = 1.675, ovr_SetTrackingOriginType = ovrSuccess\<rparr>"

definition props_in :: "chain_struct list \<Rightarrow> XrSystemProperties" where
  "props_in chain =
     \<lparr>sp_type = XR_TYPE_SYSTEM_PROPERTIES, sp_next = chain, sp_systemId = 0, vendorId = 0,
      systemName = [],
      graphicsProperties = \<lparr>maxSwapchainImageHeight = 0, maxSwapchainImageWidth = 0, maxLayerCount = 0\<rparr>,
      trackingProperties = \<lparr>orientationTracking = False, positionTracking = False\<rparr>\<rparr>"

text \<open>
  The runtime object after the instance was created and before any bring-up; the
  descriptor of a well-formed xrGetSystem call; and three variations of the answers:
  the service not running with no setting stored, the service not running with the
  fallback forbidden, and a backend that refuses the tracking origin.
\<close>

definition rt_instance :: OpenXrRuntime where
  "rt_instance = rt_zero\<lparr>m_instanceCreated := True\<rparr>"

definition gi_hmd :: XrSystemGetInfo where
  "gi_hmd = \<lparr>gi_type = XR_TYPE_SYSTEM_GET_INFO, formFactor = XR_FORM_FACTOR_HEAD_MOUNTED_DISPLAY\<rparr>"

definition oculus_answers :: collaborators where
  "oculus_answers = vd_answers\<lparr>IsServiceRunning := False\<rparr>"

definition no_fallback_answers :: collaborators where
  "no_fallback_answers =
     vd_answers\<lparr>IsServiceRunning := False,
                 getSetting := (\<lambda>k. if k = ''allow_oculus_runtime'' then Some 0 else None)\<rparr>"

definition origin_refused_answers :: collaborators where
  "origin_refused_answers = vd_answers\<lparr>ovr_SetTrackingOriginType := ovrError_Other\<rparr>"




definition rt_live_ext :: OpenXrRuntime where
  "rt_live_ext = rt_live\<lparr>has_XR_EXT_eye_gaze_interaction := True, has_XR_META_headset_id := True\<rparr>"

section \<open>Validation order (xrGetSystem, xrGetSystemProperties)\<close>

text \<open>
  C2. A call of xrGetSystem or xrGetSystemProperties whose descriptor does not carry the
  expected structure-kind tag returns the validation failure whatever the runtime object,
  the instance, the system id and the collaborators are: the handle and state checks are
  not reached. The runtime object is returned as it was (its record of outside calls
  included, so nothing reached the backend), and the caller's structures are unchanged.
\<close>

theorem wrong_tag_validation_failure:
  "(gi_type getInfo \<noteq> XR_TYPE_SYSTEM_GET_INFO \<longrightarrow>
      xrGetSystem e st inst getInfo systemId = Returned (XR_ERROR_VALIDATION_FAILURE, systemId) st)
   \<and> (sp_type properties \<noteq> XR_TYPE_SYSTEM_PROPERTIES \<longrightarrow>
      xrGetSystemProperties st inst sid properties = Some (XR_ERROR_VALIDATION_FAILURE, properties))"
  by (simp add: xrGetSystem_def xrGetSystemProperties_def)

text \<open>
  Both calls with a wrong tag, on a runtime object without an instance and with handles
  that are not the sentinel: the validation failure comes first.
\<close>

theorem wrong_tag_validation_failure_witness:
  "xrGetSystem vd_answers rt_zero 7
       \<lparr>gi_type = XR_TYPE_SYSTEM_PROPERTIES, formFactor = XR_FORM_FACTOR_HANDHELD_DISPLAY\<rparr> 5
     = Returned (XR_ERROR_VALIDATION_FAILURE, 5) rt_zero
   \<and> xrGetSystemProperties rt_zero 7 9 ((props_in [])\<lparr>sp_type := XR_TYPE_SYSTEM_GET_INFO\<rparr>)
     = Some (XR_ERROR_VALIDATION_FAILURE, (props_in [])\<lparr>sp_type := XR_TYPE_SYSTEM_GET_INFO\<rparr>)"
  using wrong_tag_validation_failure
          [where getInfo = "\<lparr>gi_type = XR_TYPE_SYSTEM_PROPERTIES, formFactor = XR_FORM_FACTOR_HANDHELD_DISPLAY\<rparr>"
             and e = vd_answers and st = rt_zero and inst = 7 and systemId = 5
             and properties = "(props_in [])\<lparr>sp_type := XR_TYPE_SYSTEM_GET_INFO\<rparr>" and sid = 9]
  by (simp add: props_in_def)

section \<open>xrEnumerateEnvironmentBlendModes\<close>

text \<open>
  C7. With valid handles: a view configuration other than primary stereo gives the
  view-configuration-unsupported error and leaves count and buffer alone; capacity 0
  gives success and count 1 and leaves the buffer alone; a non-zero capacity below the
  count gives the size-insufficient error and leaves count and buffer alone; a capacity
  of at least 1 with a buffer of at least one element gives success, count 1, and the
  buffer with Opaque as its first element and the rest as before.
  The table has one element, so no 32-bit capacity is both non-zero and below the
  count: the third case states the guard of line 182, which no call reaches.
\<close>

theorem enumerate_blend_modes_two_call:
  assumes "m_instanceCreated st" "inst = 1" "m_systemCreated st" "systemId = 1"
  shows "(vct \<noteq> XR_VIEW_CONFIGURATION_TYPE_PRIMARY_STEREO \<longrightarrow>
            xrEnumerateEnvironmentBlendModes st inst systemId vct cap cnt buf
              = (XR_ERROR_VIEW_CONFIGURATION_TYPE_UNSUPPORTED, cnt, buf))
       \<and> xrEnumerateEnvironmentBlendModes st inst systemId XR_VIEW_CONFIGURATION_TYPE_PRIMARY_STEREO 0 cnt buf
              = (XR_SUCCESS, 1, buf)
       \<and> (cap \<noteq> 0 \<and> unat cap < 1 \<longrightarrow>
            xrEnumerateEnvironmentBlendModes st inst systemId XR_VIEW_CONFIGURATION_TYPE_PRIMARY_STEREO cap cnt buf
              = (XR_ERROR_SIZE_INSUFFICIENT, cnt, buf))
       \<and> (1 \<le> unat cap \<and> 1 \<le> length b \<longrightarrow>
            xrEnumerateEnvironmentBlendModes st inst systemId XR_VIEW_CONFIGURATION_TYPE_PRIMARY_STEREO cap cnt (Some b)
              = (XR_SUCCESS, 1, Some (XR_ENVIRONMENT_BLEND_MODE_OPAQUE # drop 1 b)))"
proof -
  have a: "vct \<noteq> XR_VIEW_CONFIGURATION_TYPE_PRIMARY_STEREO \<longrightarrow>
            xrEnumerateEnvironmentBlendModes st inst systemId vct cap cnt buf
              = (XR_ERROR_VIEW_CONFIGURATION_TYPE_UNSUPPORTED, cnt, buf)"
    using assms by (simp add: xrEnumerateEnvironmentBlendModes_def)
  have b: "xrEnumerateEnvironmentBlendModes st inst systemId XR_VIEW_CONFIGURATION_TYPE_PRIMARY_STEREO 0 cnt buf
              = (XR_SUCCESS, 1, buf)"
    using assms by (simp add: xrEnumerateEnvironmentBlendModes_def blendModes_def split: option.splits)
  have c: "cap \<noteq> 0 \<and> unat cap < 1 \<longrightarrow>
            xrEnumerateEnvironmentBlendModes st inst systemId XR_VIEW_CONFIGURATION_TYPE_PRIMARY_STEREO cap cnt buf
              = (XR_ERROR_SIZE_INSUFFICIENT, cnt, buf)"
    using assms by (simp add: xrEnumerateEnvironmentBlendModes_def blendModes_def)
  have d: "1 \<le> unat cap \<and> 1 \<le> length b \<longrightarrow>
            xrEnumerateEnvironmentBlendModes st inst systemId XR_VIEW_CONFIGURATION_TYPE_PRIMARY_STEREO cap cnt (Some b)
              = (XR_SUCCESS, 1, Some (XR_ENVIRONMENT_BLEND_MODE_OPAQUE # drop 1 b))"
  proof
    assume h: "1 \<le> unat cap \<and> 1 \<le> length b"
    then have nz: "cap \<noteq> 0" by (auto simp: unat_eq_0)
    from h have "b \<noteq> []" by auto
    then have upd: "b[0 := XR_ENVIRONMENT_BLEND_MODE_OPAQUE] = XR_ENVIRONMENT_BLEND_MODE_OPAQUE # drop 1 b"
      by (cases b) simp_all
    show "xrEnumerateEnvironmentBlendModes st inst systemId XR_VIEW_CONFIGURATION_TYPE_PRIMARY_STEREO cap cnt (Some b)
              = (XR_SUCCESS, 1, Some (XR_ENVIRONMENT_BLEND_MODE_OPAQUE # drop 1 b))"
      using assms nz h upd by (simp add: xrEnumerateEnvironmentBlendModes_def blendModes_def)
  qed
  from a b c d show ?thesis by blast
qed

text \<open>
  The same caller's buffer of two elements with a mono configuration, with capacity 0 and
  with capacity 2.
\<close>

theorem enumerate_blend_modes_two_call_witness:
  "xrEnumerateEnvironmentBlendModes rt_live 1 1 XR_VIEW_CONFIGURATION_TYPE_PRIMARY_MONO 2 77
       (Some [XR_ENVIRONMENT_BLEND_MODE_ADDITIVE, XR_ENVIRONMENT_BLEND_MODE_ADDITIVE])
     = (XR_ERROR_VIEW_CONFIGURATION_TYPE_UNSUPPORTED, 77,
        Some [XR_ENVIRONMENT_BLEND_MODE_ADDITIVE, XR_ENVIRONMENT_BLEND_MODE_ADDITIVE])
   \<and> xrEnumerateEnvironmentBlendModes rt_live 1 1 XR_VIEW_CONFIGURATION_TYPE_PRIMARY_STEREO 0 77
       (Some [XR_ENVIRONMENT_BLEND_MODE_ADDITIVE, XR_ENVIRONMENT_BLEND_MODE_ADDITIVE])
     = (XR_SUCCESS, 1, Some [XR_ENVIRONMENT_BLEND_MODE_ADDITIVE, XR_ENVIRONMENT_BLEND_MODE_ADDITIVE])
   \<and> xrEnumerateEnvironmentBlendModes rt_live 1 1 XR_VIEW_CONFIGURATION_TYPE_PRIMARY_STEREO 2 77
       (Some [XR_ENVIRONMENT_BLEND_MODE_ADDITIVE, XR_ENVIRONMENT_BLEND_MODE_ADDITIVE])
     = (XR_SUCCESS, 1, Some [XR_ENVIRONMENT_BLEND_MODE_OPAQUE, XR_ENVIRONMENT_BLEND_MODE_ADDITIVE])"
  using enumerate_blend_modes_two_call [where st = rt_live and inst = 1 and systemId = 1
              and vct = XR_VIEW_CONFIGURATION_TYPE_PRIMARY_MONO and cap = 2 and cnt = 77
              and buf = "Some [XR_ENVIRONMENT_BLEND_MODE_ADDITIVE, XR_ENVIRONMENT_BLEND_MODE_ADDITIVE]"
              and b = "[XR_ENVIRONMENT_BLEND_MODE_ADDITIVE, XR_ENVIRONMENT_BLEND_MODE_ADDITIVE]"]
  by (simp add: rt_live_def rt_zero_def)

text \<open>
  C10. With valid handles, the stereo configuration and a capacity of at least the count,
  a null buffer pointer is accepted: the call returns success, stores the count 1 and
  writes no item.
\<close>

theorem enumerate_blend_modes_null_buffer:
  assumes "m_instanceCreated st" "inst = 1" "m_systemCreated st" "systemId = 1"
    and "length blendModes \<le> unat capacityInput"
  shows "xrEnumerateEnvironmentBlendModes st inst systemId XR_VIEW_CONFIGURATION_TYPE_PRIMARY_STEREO
           capacityInput countOutput None = (XR_SUCCESS, 1, None)"
  using assms by (simp add: xrEnumerateEnvironmentBlendModes_def blendModes_def)

theorem enumerate_blend_modes_null_buffer_witness:
  "xrEnumerateEnvironmentBlendModes rt_live 1 1 XR_VIEW_CONFIGURATION_TYPE_PRIMARY_STEREO 4 77 None
     = (XR_SUCCESS, 1, None)"
  using enumerate_blend_modes_null_buffer [of rt_live 1 1 4 77] by (simp add: rt_live_def rt_zero_def blendModes_def)

section \<open>xrGetSystemProperties\<close>

text \<open>
  C9. With the expected descriptor tag, the instance created and named by the sentinel,
  and the system created and named by the sentinel, xrGetSystemProperties returns
  success; the vendor id is the cached descriptor's 16-bit vendor id converted to 32
  bits, the system name is the cached product name, both tracking flags are set, the
  layer count is \<open>ovrMaxLayerCount\<close> and the swapchain width and height are 16384.
  The product name is a \<open>char[64]\<close> member, so it fits the 256 bytes of the system
  name; the hypothesis on its length says so.
\<close>

theorem system_properties_base:
  assumes "sp_type properties = XR_TYPE_SYSTEM_PROPERTIES"
    and "m_instanceCreated st" "inst = 1" "m_systemCreated st" "systemId = 1"
    and "length (ProductName (m_cachedHmdInfo st)) < XR_MAX_SYSTEM_NAME_SIZE"
  shows "\<exists>p. xrGetSystemProperties st inst systemId properties = Some (XR_SUCCESS, p)
           \<and> vendorId p = scast (VendorId (m_cachedHmdInfo st))
           \<and> systemName p = ProductName (m_cachedHmdInfo st)
           \<and> sp_systemId p = systemId
           \<and> trackingProperties p = \<lparr>orientationTracking = True, positionTracking = True\<rparr>
           \<and> graphicsProperties p =
               \<lparr>maxSwapchainImageHeight = 16384, maxSwapchainImageWidth = 16384,
                maxLayerCount = ovrMaxLayerCount\<rparr>"
  using assms
  by (simp add: xrGetSystemProperties_def sprintf_s_def Let_def split: option.splits)

theorem system_properties_base_witness:
  "xrGetSystemProperties rt_live 1 1 (props_in [OtherStruct 3])
     = Some (XR_SUCCESS,
         \<lparr>sp_type = XR_TYPE_SYSTEM_PROPERTIES, sp_next = [OtherStruct 3], sp_systemId = 1,
          vendorId = 0x2833, systemName = ''Oculus Quest2'',
          graphicsProperties = \<lparr>maxSwapchainImageHeight = 16384, maxSwapchainImageWidth = 16384,
                                  maxLayerCount = 16\<rparr>,
          trackingProperties = \<lparr>orientationTracking = True, positionTracking = True\<rparr>\<rparr>)"
  using system_properties_base [of "props_in [OtherStruct 3]" rt_live 1 1]
  by (simp add: props_in_def rt_live_def rt_zero_def hmd_quest_def XR_MAX_SYSTEM_NAME_SIZE_def
      xrGetSystemProperties_def sprintf_s_def ovrMaxLayerCount_def)

lemma find_in_chain_Some:
  "find_in_chain ty xs = Some i \<Longrightarrow> i < length xs \<and> struct_type (xs ! i) = ty"
  by (induction xs arbitrary: i) (auto split: if_splits)

lemma find_in_chain_first:
  "i < length xs \<Longrightarrow> struct_type (xs ! i) = ty \<Longrightarrow> (\<forall>k<i. struct_type (xs ! k) \<noteq> ty)
     \<Longrightarrow> find_in_chain ty xs = Some i"
proof (induction xs arbitrary: i)
  case Nil
  then show ?case by simp
next
  case (Cons x xs)
  show ?case
  proof (cases i)
    case 0
    with Cons.prems show ?thesis by simp
  next
    case (Suc j)
    have x: "struct_type x \<noteq> ty" using Cons.prems(3) Suc by auto
    have "\<forall>k<j. struct_type (xs ! k) \<noteq> ty"
    proof (intro allI impI)
      fix k assume "k < j"
      then have "Suc k < i" using Suc by simp
      then have "struct_type ((x # xs) ! Suc k) \<noteq> ty" using Cons.prems(3) by blast
      then show "struct_type (xs ! k) \<noteq> ty" by simp
    qed
    then have "find_in_chain ty xs = Some j"
      using Cons.IH [of j] Cons.prems Suc by simp
    then show ?thesis using x Suc by simp
  qed
qed

lemma xrGetSystemProperties_valid:
  assumes "sp_type properties = XR_TYPE_SYSTEM_PROPERTIES"
    and "m_instanceCreated st" "inst = 1" "m_systemCreated st" "systemId = 1"
    and "length (ProductName (m_cachedHmdInfo st)) < XR_MAX_SYSTEM_NAME_SIZE"
  shows "\<exists>p. xrGetSystemProperties st inst systemId properties = Some (XR_SUCCESS, p)
           \<and> sp_next p =
               (let c1 = (case find_in_chain XR_TYPE_SYSTEM_EYE_GAZE_INTERACTION_PROPERTIES_EXT (sp_next properties) of
                            Some i \<Rightarrow> if has_XR_EXT_eye_gaze_interaction st
                                      then (sp_next properties)[i := EyeGazeInteractionProperties
                                                                     (m_eyeTrackingType st \<noteq> EyeTracking_None)]
                                      else sp_next properties
                          | None \<Rightarrow> sp_next properties)
                in (case find_in_chain XR_TYPE_SYSTEM_HEADSET_ID_PROPERTIES_META (sp_next properties) of
                      Some j \<Rightarrow> if has_XR_META_headset_id st then c1[j := HeadsetIdProperties headset_uuid] else c1
                    | None \<Rightarrow> c1))"
  using assms
  by (simp add: xrGetSystemProperties_def sprintf_s_def Let_def split: option.splits)

text \<open>
  C8 (amended). With valid handles, xrGetSystemProperties returns success for every
  output chain. The first eye-gaze-interaction structure of the chain is found behind
  any number of structures of other kinds and, when the eye-gaze extension is enabled,
  its flag is set to whether an eye-tracking source is in use; the first
  headset-identifier structure is found likewise and, when that extension is enabled,
  receives the fixed identifier. Structures of unrecognised kinds are left as they are.
\<close>

theorem chain_scan_populates_first_enabled:
  assumes "sp_type properties = XR_TYPE_SYSTEM_PROPERTIES"
    and "m_instanceCreated st" "inst = 1" "m_systemCreated st" "systemId = 1"
    and "length (ProductName (m_cachedHmdInfo st)) < XR_MAX_SYSTEM_NAME_SIZE"
  shows "\<exists>p. xrGetSystemProperties st inst systemId properties = Some (XR_SUCCESS, p)
           \<and> length (sp_next p) = length (sp_next properties)
           \<and> (has_XR_EXT_eye_gaze_interaction st \<and> i < length (sp_next properties)
                \<and> struct_type (sp_next properties ! i) = XR_TYPE_SYSTEM_EYE_GAZE_INTERACTION_PROPERTIES_EXT
                \<and> (\<forall>k<i. struct_type (sp_next properties ! k) \<noteq> XR_TYPE_SYSTEM_EYE_GAZE_INTERACTION_PROPERTIES_EXT)
               \<longrightarrow> sp_next p ! i = EyeGazeInteractionProperties (m_eyeTrackingType st \<noteq> EyeTracking_None))
           \<and> (has_XR_META_headset_id st \<and> j < length (sp_next properties)
                \<and> struct_type (sp_next properties ! j) = XR_TYPE_SYSTEM_HEADSET_ID_PROPERTIES_META
                \<and> (\<forall>k<j. struct_type (sp_next properties ! k) \<noteq> XR_TYPE_SYSTEM_HEADSET_ID_PROPERTIES_META)
               \<longrightarrow> sp_next p ! j = HeadsetIdProperties headset_uuid)
           \<and> (\<forall>k n. k < length (sp_next properties) \<and> sp_next properties ! k = OtherStruct n
               \<longrightarrow> sp_next p ! k = OtherStruct n)"
proof -
  let ?chain = "sp_next properties"
  let ?E = "XR_TYPE_SYSTEM_EYE_GAZE_INTERACTION_PROPERTIES_EXT"
  let ?H = "XR_TYPE_SYSTEM_HEADSET_ID_PROPERTIES_META"
  obtain p where res: "xrGetSystemProperties st inst systemId properties = Some (XR_SUCCESS, p)"
    and nxt: "sp_next p =
               (let c1 = (case find_in_chain ?E ?chain of
                            Some i \<Rightarrow> if has_XR_EXT_eye_gaze_interaction st
                                      then ?chain[i := EyeGazeInteractionProperties
                                                                     (m_eyeTrackingType st \<noteq> EyeTracking_None)]
                                      else ?chain
                          | None \<Rightarrow> ?chain)
                in (case find_in_chain ?H ?chain of
                      Some j \<Rightarrow> if has_XR_META_headset_id st then c1[j := HeadsetIdProperties headset_uuid] else c1
                    | None \<Rightarrow> c1))"
    using xrGetSystemProperties_valid [OF assms] by blast
  have len: "length (sp_next p) = length ?chain"
    by (simp add: nxt Let_def split: option.splits)
  have eye: "sp_next p ! i = EyeGazeInteractionProperties (m_eyeTrackingType st \<noteq> EyeTracking_None)"
    if h: "has_XR_EXT_eye_gaze_interaction st" "i < length ?chain" "struct_type (?chain ! i) = ?E"
      "\<forall>k<i. struct_type (?chain ! k) \<noteq> ?E"
  proof -
    have f: "find_in_chain ?E ?chain = Some i"
      using find_in_chain_first [OF h(2) h(3) h(4)] .
    have ne: "j' \<noteq> i" if "find_in_chain ?H ?chain = Some j'" for j'
      using find_in_chain_Some [OF that] h(3) by auto
    show ?thesis
      using f h(1) h(2) ne by (auto simp: nxt Let_def split: option.splits)
  qed
  have head: "sp_next p ! j = HeadsetIdProperties headset_uuid"
    if h: "has_XR_META_headset_id st" "j < length ?chain" "struct_type (?chain ! j) = ?H"
      "\<forall>k<j. struct_type (?chain ! k) \<noteq> ?H"
  proof -
    have f: "find_in_chain ?H ?chain = Some j"
      using find_in_chain_first [OF h(2) h(3) h(4)] .
    show ?thesis
      using f h(1) h(2) by (auto simp: nxt Let_def split: option.splits)
  qed
  have other: "sp_next p ! k = OtherStruct n" if h: "k < length ?chain" "?chain ! k = OtherStruct n" for k n
  proof -
    have ne: "i' \<noteq> k" if "find_in_chain ty ?chain = Some i'" "ty = ?E \<or> ty = ?H" for i' ty
      using find_in_chain_Some [OF that(1)] that(2) h(2) by auto
    show ?thesis
      using h ne [of ?E] ne [of ?H] by (auto simp: nxt Let_def split: option.splits)
  qed
  from res len eye head other show ?thesis by blast
qed

text \<open>
  A chain of five structures with both extensions enabled: the headset-identifier
  structure at position 1 and the first eye-gaze structure at position 3 are written,
  the second eye-gaze structure and the unrecognised ones are not.
\<close>

theorem chain_scan_populates_first_enabled_witness:
  "xrGetSystemProperties rt_live_ext 1 1
       (props_in [OtherStruct 3, HeadsetIdProperties [], OtherStruct 4, EyeGazeInteractionProperties False,
                  EyeGazeInteractionProperties False])
     = Some (XR_SUCCESS,
         \<lparr>sp_type = XR_TYPE_SYSTEM_PROPERTIES,
          sp_next = [OtherStruct 3, HeadsetIdProperties headset_uuid, OtherStruct 4,
                     EyeGazeInteractionProperties True, EyeGazeInteractionProperties False],
          sp_systemId = 1,
          vendorId = 0x2833, systemName = ''Oculus Quest2'',
          graphicsProperties = \<lparr>maxSwapchainImageHeight = 16384, maxSwapchainImageWidth = 16384,
                                  maxLayerCount = 16\<rparr>,
          trackingProperties = \<lparr>orientationTracking = True, positionTracking = True\<rparr>\<rparr>)"
  using chain_scan_populates_first_enabled [where properties = "props_in [OtherStruct 3, HeadsetIdProperties [], OtherStruct 4, EyeGazeInteractionProperties False,
                  EyeGazeInteractionProperties False]" and st = rt_live_ext and inst = 1 and systemId = 1
                  and i = 3 and j = 1]
  by (simp add: props_in_def rt_live_ext_def rt_live_def rt_zero_def hmd_quest_def XR_MAX_SYSTEM_NAME_SIZE_def
      xrGetSystemProperties_def sprintf_s_def ovrMaxLayerCount_def)

text \<open>
  C8 as stated fails when the eye-gaze extension is not enabled: the structure behind
  an unrecognised one is reached, the eye-tracking source is in use, and the flag is
  left as the caller set it. It also fails for a second structure of the same kind:
  with the extension enabled only the first of two eye-gaze structures is written.
\<close>

theorem chain_scan_disabled_extension_counterexample:
  "m_eyeTrackingType rt_live \<noteq> EyeTracking_None
   \<and> \<not> has_XR_EXT_eye_gaze_interaction rt_live
   \<and> xrGetSystemProperties rt_live 1 1 (props_in [OtherStruct 3, EyeGazeInteractionProperties False])
     = Some (XR_SUCCESS,
         \<lparr>sp_type = XR_TYPE_SYSTEM_PROPERTIES,
          sp_next = [OtherStruct 3, EyeGazeInteractionProperties False],
          sp_systemId = 1,
          vendorId = 0x2833, systemName = ''Oculus Quest2'',
          graphicsProperties = \<lparr>maxSwapchainImageHeight = 16384, maxSwapchainImageWidth = 16384,
                                  maxLayerCount = 16\<rparr>,
          trackingProperties = \<lparr>orientationTracking = True, positionTracking = True\<rparr>\<rparr>)
   \<and> has_XR_EXT_eye_gaze_interaction rt_live_ext
   \<and> xrGetSystemProperties rt_live_ext 1 1
         (props_in [EyeGazeInteractionProperties False, EyeGazeInteractionProperties False])
     = Some (XR_SUCCESS,
         \<lparr>sp_type = XR_TYPE_SYSTEM_PROPERTIES,
          sp_next = [EyeGazeInteractionProperties True, EyeGazeInteractionProperties False],
          sp_systemId = 1,
          vendorId = 0x2833, systemName = ''Oculus Quest2'',
          graphicsProperties = \<lparr>maxSwapchainImageHeight = 16384, maxSwapchainImageWidth = 16384,
                                  maxLayerCount = 16\<rparr>,
          trackingProperties = \<lparr>orientationTracking = True, positionTracking = True\<rparr>\<rparr>)"
  by (simp add: props_in_def rt_live_ext_def rt_live_def rt_zero_def hmd_quest_def XR_MAX_SYSTEM_NAME_SIZE_def
      xrGetSystemProperties_def sprintf_s_def ovrMaxLayerCount_def)

section \<open>Bring-up\<close>

subsection \<open>The stages of the bring-up in closed form\<close>

text \<open>
  The equations of the two loops of the bring-up are unfolded by hand, one iteration at
  a time.
\<close>

declare calibrate.simps [simp del] cacheEyeFov.simps [simp del]

lemma cacheEyeFov_0:
  "cacheEyeFov 0 st =
     st\<lparr>m_cachedEyeFov := (m_cachedEyeFov st)
          (0 := eyeFov_of (m_cachedEyeInfo st 0), Suc 0 := eyeFov_of (m_cachedEyeInfo st (Suc 0)))\<rparr>"
proof -
  have 2: "cacheEyeFov (Suc (Suc 0)) s = s" for s
    by (subst cacheEyeFov.simps) (simp add: StereoView_Count_def)
  have 1: "cacheEyeFov (Suc 0) s = s\<lparr>m_cachedEyeFov := (m_cachedEyeFov s)(Suc 0 := eyeFov_of (m_cachedEyeInfo s (Suc 0)))\<rparr>" for s
    by (subst cacheEyeFov.simps) (simp add: StereoView_Count_def 2)
  show ?thesis
    by (subst cacheEyeFov.simps) (simp add: StereoView_Count_def 1)
qed

lemma calibration_round_eq:
  "calibration_round e i st =
     st\<lparr>m_ovrTimeFromQpcTimeOffset :=
          std_min (m_ovrTimeFromQpcTimeOffset st)
            (Fin (ovr_GetTimeInSeconds e (Suc i)
                    - real_of_int (QueryPerformanceCounter e i) / real_of_int (m_qpcFrequency st))),
        calls := calls st @ [Call_QueryPerformanceCounter, Call_ovr_GetTimeInSeconds]\<rparr>"
  by (simp add: calibration_round_def note_call_def Let_def)



lemma calibrate_eq:
  "calibrate e i st =
     st\<lparr>m_ovrTimeFromQpcTimeOffset :=
          fold (\<lambda>k a. std_min a (Fin (ovr_GetTimeInSeconds e (Suc k)
                    - real_of_int (QueryPerformanceCounter e k) / real_of_int (m_qpcFrequency st))))
            [i..<100] (m_ovrTimeFromQpcTimeOffset st),
        calls := calls st @ concat (replicate (100 - i) [Call_QueryPerformanceCounter, Call_ovr_GetTimeInSeconds])\<rparr>"
proof (induction e i st rule: calibrate.induct)
  case (1 e i st)
  show ?case
  proof (cases "i < 100")
    case True
    have u: "[i..<100] = i # [Suc i..<100]" using True by (simp add: upt_conv_Cons)
    have r: "replicate (100 - i) [Call_QueryPerformanceCounter, Call_ovr_GetTimeInSeconds]
               = [Call_QueryPerformanceCounter, Call_ovr_GetTimeInSeconds]
                 # replicate (100 - Suc i) [Call_QueryPerformanceCounter, Call_ovr_GetTimeInSeconds]"
      using True by (simp add: Suc_diff_Suc flip: replicate_Suc)
    have "calibrate e i st = calibrate e (Suc i) (calibration_round e i st)"
      using True by (subst calibrate.simps) simp
    also note "1.IH" [OF True]
    finally show ?thesis
      unfolding u r by (simp add: calibration_round_eq)
  next
    case False
    then show ?thesis by (subst calibrate.simps) simp
  qed
qed

lemma fold_std_min_Fin:
  "fold (\<lambda>k a. std_min a (Fin (f k))) ks (Fin a) = Fin (Min (insert a (f ` set ks)))"
proof (induction ks arbitrary: a)
  case Nil
  then show ?case by simp
next
  case (Cons k ks)
  have "std_min (Fin a) (Fin (f k)) = Fin (min a (f k))"
    by (simp add: std_min_def min_def)
  moreover have "Min (insert (min a (f k)) (f ` set ks)) = Min (insert a (insert (f k) (f ` set ks)))"
    by (cases "set ks = {}") (simp_all add: min.assoc)
  ultimately show ?case using Cons.IH [of "min a (f k)"] by simp
qed

lemma fold_std_min_INFINITY:
  "ks \<noteq> [] \<Longrightarrow> fold (\<lambda>k a. std_min a (Fin (f k))) ks INFINITY = Fin (Min (f ` set ks))"
proof (cases ks)
  case Nil
  assume "ks \<noteq> []" with Nil show ?thesis by simp
next
  case (Cons k ks')
  have "std_min INFINITY (Fin (f k)) = Fin (f k)" by (simp add: std_min_def)
  then show ?thesis using Cons by (simp add: fold_std_min_Fin)
qed

lemma startCalibration_eq:
  "startCalibration e st =
     st\<lparr>m_ovrTimeReference := ovr_GetTimeInSeconds e 0,
        m_qpcFrequency := QueryPerformanceFrequency e,
        m_ovrTimeFromQpcTimeOffset := INFINITY,
        calls := calls st @ (if \<not> m_useOculusRuntime st then [Call_ovr_SetBool_IsVDXR] else [])
                   @ [Call_ovr_GetTimeInSeconds, Call_QueryPerformanceFrequency]\<rparr>"
  by (simp add: startCalibration_def note_call_def Let_def)

lemma cacheDevice_eq:
  "cacheDevice e h st =
     st\<lparr>m_cachedHmdInfo := h,
        m_eyeTrackingType :=
          (if value_or (getSetting e ''simulate_eye_tracking'') 0 = 0
           then (if initializeEyeTrackingMmf e then EyeTracking_Mmf else EyeTracking_None)
           else EyeTracking_Simulated),
        m_displayRefreshRate := DisplayRefreshRate h,
        m_predictedFrameDuration := one_over (DisplayRefreshRate h),
        m_idealFrameDuration := one_over (DisplayRefreshRate h),
        m_cachedEyeInfo := (m_cachedEyeInfo st)
          (0 := ovr_GetRenderDesc e 0 (DefaultEyeFov h 0),
           Suc 0 := ovr_GetRenderDesc e (Suc 0) (DefaultEyeFov h (Suc 0))),
        m_floorHeight := ovr_GetFloat_EyeHeight e,
        m_cachedEyeFov := (m_cachedEyeFov st)
          (0 := eyeFov_of (ovr_GetRenderDesc e 0 (DefaultEyeFov h 0)),
           Suc 0 := eyeFov_of (ovr_GetRenderDesc e (Suc 0) (DefaultEyeFov h (Suc 0)))),
        calls := calls st @ [Call_getSetting ''simulate_eye_tracking'']
                   @ (if value_or (getSetting e ''simulate_eye_tracking'') 0 = 0
                      then [Call_initializeEyeTrackingMmf] else [])
                   @ [Call_ovr_GetRenderDesc 0, Call_ovr_GetRenderDesc (Suc 0), Call_ovr_GetFloat_EyeHeight]\<rparr>"
  by (simp add: cacheDevice_def cacheEyeFov_0 note_call_def Let_def
        ovrEye_Left_def ovrEye_Right_def StereoView_Left_def StereoView_Right_def)

lemma initializeSystem_state:
  "state_of (initializeSystem e st) =
     (if SerialNumber (m_cachedHmdInfo st) \<noteq> SerialNumber (ovr_GetHmdDesc e)
      then (cacheDevice e (ovr_GetHmdDesc e) (st\<lparr>calls := calls st @ [Call_ovr_GetHmdDesc]\<rparr>))
             \<lparr>calls := calls (cacheDevice e (ovr_GetHmdDesc e) (st\<lparr>calls := calls st @ [Call_ovr_GetHmdDesc]\<rparr>))
                         @ [Call_ovr_SetTrackingOriginType_EyeLevel]\<rparr>
      else st\<lparr>calls := calls st @ [Call_ovr_GetHmdDesc, Call_ovr_SetTrackingOriginType_EyeLevel]\<rparr>)"
  by (simp add: initializeSystem_def note_call_def Let_def)

lemma initializeSystem_outcome:
  "initializeSystem e st =
     (if OVR_FAILURE (ovr_SetTrackingOriginType e)
      then Threw (OvrFailure (ovr_SetTrackingOriginType e)) (state_of (initializeSystem e st))
      else Returned () (state_of (initializeSystem e st)))"
  by (simp add: initializeSystem_def Let_def)

lemma initializeOVR_state:
  "state_of (initializeOVR e st) =
     st\<lparr>m_useOculusRuntime := \<not> IsServiceRunning e,
        m_isOVRLoaded := (returned (initializeOVR e st) = Some True \<or> m_isOVRLoaded st),
        m_ovrSession := (if returned (initializeOVR e st) = Some True then None else m_ovrSession st),
        calls := calls (state_of (initializeOVR e st))\<rparr>"
proof (cases "IsServiceRunning e")
  case True
  show ?thesis
  proof (cases "RegGetString e")
    case None
    with True show ?thesis
      by (simp add: initializeOVR_def overridePath_of_def note_call_def Let_def)
  next
    case (Some p)
    with True show ?thesis
      by (simp add: initializeOVR_def overridePath_of_def note_call_def Let_def)
  qed
next
  case False
  then show ?thesis
    by (simp add: initializeOVR_def overridePath_of_def note_call_def Let_def)
qed


lemma initializeOVR_preserves:
  shows "calibration_of (state_of (initializeOVR e st)) = calibration_of st"
    and "derived_of (state_of (initializeOVR e st)) = derived_of st"
    and "m_cachedHmdInfo (state_of (initializeOVR e st)) = m_cachedHmdInfo st"
    and "m_instanceCreated (state_of (initializeOVR e st)) = m_instanceCreated st"
    and "m_systemCreated (state_of (initializeOVR e st)) = m_systemCreated st"
proof -
  note eq = initializeOVR_state [of e st]
  show "calibration_of (state_of (initializeOVR e st)) = calibration_of st"
    using arg_cong [OF eq, of calibration_of] by (simp add: calibration_of_def)
  show "derived_of (state_of (initializeOVR e st)) = derived_of st"
    using arg_cong [OF eq, of derived_of] by (simp add: derived_of_def)
  show "m_cachedHmdInfo (state_of (initializeOVR e st)) = m_cachedHmdInfo st"
    using arg_cong [OF eq, of m_cachedHmdInfo] by simp
  show "m_instanceCreated (state_of (initializeOVR e st)) = m_instanceCreated st"
    using arg_cong [OF eq, of m_instanceCreated] by simp
  show "m_systemCreated (state_of (initializeOVR e st)) = m_systemCreated st"
    using arg_cong [OF eq, of m_systemCreated] by simp
qed


lemma initializeOVR_calls:
  "\<exists>cs. calls (state_of (initializeOVR e st)) = calls st @ Call_IsServiceRunning # cs
      \<and> list_all bringup_probe_call cs"
proof (cases "IsServiceRunning e")
  case True
  show ?thesis
  proof (cases "RegGetString e")
    case None
    with True show ?thesis
      by (simp add: initializeOVR_def overridePath_of_def note_call_def Let_def bringup_probe_call_def)
  next
    case (Some p)
    with True show ?thesis
      by (simp add: initializeOVR_def overridePath_of_def note_call_def Let_def bringup_probe_call_def)
  qed
next
  case False
  then show ?thesis
    by (simp add: initializeOVR_def overridePath_of_def note_call_def Let_def bringup_probe_call_def)
qed

lemma count_list_probe_calls:
  "list_all bringup_probe_call cs \<Longrightarrow> \<not> bringup_probe_call c \<Longrightarrow> count_list cs c = 0"
  by (induction cs) auto

lemma initializeOVR_calls_count:
  assumes "\<not> bringup_probe_call c"
  shows "count_list (calls (state_of (initializeOVR e st))) c = count_list (calls st) c"
proof -
  obtain cs where cs: "calls (state_of (initializeOVR e st)) = calls st @ Call_IsServiceRunning # cs"
    and pr: "list_all bringup_probe_call cs"
    using initializeOVR_calls by blast
  have "c \<noteq> Call_IsServiceRunning" using assms by (auto simp: bringup_probe_call_def)
  then show ?thesis using count_list_probe_calls [OF pr assms] by (simp add: cs)
qed

lemma initializeOVR_calls_grow:
  "length (calls st) < length (calls (state_of (initializeOVR e st)))"
  using initializeOVR_calls [of e st] by auto

lemma initializeSystem_preserves:
  shows "calibration_of (state_of (initializeSystem e st)) = calibration_of st"
    and "m_ovrSession (state_of (initializeSystem e st)) = m_ovrSession st"
    and "m_instanceCreated (state_of (initializeSystem e st)) = m_instanceCreated st"
    and "m_systemCreated (state_of (initializeSystem e st)) = m_systemCreated st"
  by (simp_all add: initializeSystem_state cacheDevice_eq calibration_of_def)

lemma initializeSystem_calls:
  "calls (state_of (initializeSystem e st)) =
     calls st @ [Call_ovr_GetHmdDesc]
       @ (if SerialNumber (m_cachedHmdInfo st) \<noteq> SerialNumber (ovr_GetHmdDesc e)
          then [Call_getSetting ''simulate_eye_tracking'']
                 @ (if value_or (getSetting e ''simulate_eye_tracking'') 0 = 0
                    then [Call_initializeEyeTrackingMmf] else [])
                 @ [Call_ovr_GetRenderDesc 0, Call_ovr_GetRenderDesc (Suc 0), Call_ovr_GetFloat_EyeHeight]
          else [])
       @ [Call_ovr_SetTrackingOriginType_EyeLevel]"
  by (simp add: initializeSystem_state cacheDevice_eq)

lemma ensureOVRSession_live:
  "m_ovrSession st \<noteq> None \<Longrightarrow> ensureOVRSession e st = Returned True st"
  by (simp add: ensureOVRSession_def)

lemma ensureOVRSession_bringup:
  assumes "m_ovrSession st = None"
    and "returned (if \<not> m_isOVRLoaded st then initializeOVR e st else Returned True st) = Some True"
    and "fst (ovr_Create e) = ovrSuccess"
  shows "ensureOVRSession e st =
           (case initializeSystem e (calibrate e 0 (startCalibration e
                   ((note_call Call_ovr_Create
                       (state_of (if \<not> m_isOVRLoaded st then initializeOVR e st else Returned True st)))
                      \<lparr>m_ovrSession := Some (fst (snd (ovr_Create e))),
                       m_adapterLuid := snd (snd (ovr_Create e))\<rparr>))) of
              Threw x s \<Rightarrow> Threw x s
            | Returned _ s \<Rightarrow> Returned True s)"
proof -
  obtain s0 where pre: "(if \<not> m_isOVRLoaded st then initializeOVR e st else Returned True st) = Returned True s0"
    using assms(2) by (cases "if \<not> m_isOVRLoaded st then initializeOVR e st else Returned True st") auto
  show ?thesis
    unfolding ensureOVRSession_def pre using assms(1,3)
    by (simp add: Let_def OVR_FAILURE_def)
qed

lemma state_of_case:
  "state_of (case out of Threw x s \<Rightarrow> Threw x s | Returned v s \<Rightarrow> Returned b s) = state_of out"
  by (cases out) simp_all

lemma count_list_concat_replicate:
  "count_list (concat (replicate n xs)) c = n * count_list xs c"
  by (induction n) simp_all

text \<open>
  C1. Whenever ensureOVRSession creates a session (none is live, the backend is or gets
  initialised, and \<open>ovr_Create\<close> succeeds), the counter frequency it stores is the one
  read during the bring-up, the calibration scalar it stores is the minimum of the 100
  raw offsets, hence at most the raw offset of every round, and the bring-up has read
  the frequency once, the host counter 100 times and the backend clock 101 times (once
  for the time reference, once per round). This holds whether or not initializeSystem
  then returns. The frequency is taken to be non-zero, as the host guarantees: at 0 the
  code's quotient is not finite, and the division of the reals does not follow it.
\<close>

theorem calibration_is_minimum_offset:
  assumes "m_ovrSession st = None"
    and "returned (if \<not> m_isOVRLoaded st then initializeOVR e st else Returned True st) = Some True"
    and "fst (ovr_Create e) = ovrSuccess"
    and "QueryPerformanceFrequency e \<noteq> 0"
  shows "m_qpcFrequency (state_of (ensureOVRSession e st)) = QueryPerformanceFrequency e
       \<and> m_ovrTimeFromQpcTimeOffset (state_of (ensureOVRSession e st))
           = Fin (Min (raw_offset e ` {..<100}))
       \<and> (\<forall>i<100. dle (m_ovrTimeFromQpcTimeOffset (state_of (ensureOVRSession e st)))
                        (Fin (raw_offset e i)))
       \<and> count_list (calls (state_of (ensureOVRSession e st))) Call_QueryPerformanceFrequency
           = count_list (calls st) Call_QueryPerformanceFrequency + 1
       \<and> count_list (calls (state_of (ensureOVRSession e st))) Call_QueryPerformanceCounter
           = count_list (calls st) Call_QueryPerformanceCounter + 100
       \<and> count_list (calls (state_of (ensureOVRSession e st))) Call_ovr_GetTimeInSeconds
           = count_list (calls st) Call_ovr_GetTimeInSeconds + 101"
proof -
  define pre where "pre = (if \<not> m_isOVRLoaded st then initializeOVR e st else Returned True st)"
  define z where "z = (note_call Call_ovr_Create (state_of pre))
                      \<lparr>m_ovrSession := Some (fst (snd (ovr_Create e))),
                       m_adapterLuid := snd (snd (ovr_Create e))\<rparr>"
  define y where "y = startCalibration e z"
  define x where "x = calibrate e 0 y"
  let ?s = "state_of (ensureOVRSession e st)"
  have s: "?s = state_of (initializeSystem e x)"
    unfolding x_def y_def z_def pre_def
    by (simp add: ensureOVRSession_bringup [OF assms(1-3)] state_of_case)
  have cal: "calibration_of ?s = calibration_of x"
    by (simp add: s initializeSystem_preserves)
  have yf: "m_qpcFrequency y = QueryPerformanceFrequency e" "m_ovrTimeFromQpcTimeOffset y = INFINITY"
    by (simp_all add: y_def startCalibration_eq)
  have xf: "m_qpcFrequency x = QueryPerformanceFrequency e"
    by (simp add: x_def calibrate_eq yf)
  have fn: "(\<lambda>k a. std_min a (Fin (ovr_GetTimeInSeconds e (Suc k)
                    - real_of_int (QueryPerformanceCounter e k) / real_of_int (QueryPerformanceFrequency e))))
            = (\<lambda>k a. std_min a (Fin (raw_offset e k)))"
    by (simp add: raw_offset_def)
  have "m_ovrTimeFromQpcTimeOffset x = fold (\<lambda>k a. std_min a (Fin (raw_offset e k))) [0..<100] INFINITY"
    by (simp add: x_def calibrate_eq yf fn)
  also have "\<dots> = Fin (Min (raw_offset e ` set [0..<100]))"
    by (rule fold_std_min_INFINITY) simp
  also have "set [0..<100] = {..<100::nat}"
    by auto
  finally have xo: "m_ovrTimeFromQpcTimeOffset x = Fin (Min (raw_offset e ` {..<100}))" .
  have f: "m_qpcFrequency ?s = QueryPerformanceFrequency e"
    using cal xf by (simp add: calibration_of_def)
  have m: "m_ovrTimeFromQpcTimeOffset ?s = Fin (Min (raw_offset e ` {..<100}))"
    using cal xo by (simp add: calibration_of_def)
  have le: "\<forall>i<100. dle (m_ovrTimeFromQpcTimeOffset ?s) (Fin (raw_offset e i))"
    by (simp add: m)
  have oc: "count_list (calls (state_of pre)) c = count_list (calls st) c" if "\<not> bringup_probe_call c" for c
    unfolding pre_def using initializeOVR_calls_count [OF that] by simp
  define t where "t = [Call_ovr_GetHmdDesc]
       @ (if SerialNumber (m_cachedHmdInfo x) \<noteq> SerialNumber (ovr_GetHmdDesc e)
          then [Call_getSetting ''simulate_eye_tracking'']
                 @ (if value_or (getSetting e ''simulate_eye_tracking'') 0 = 0
                    then [Call_initializeEyeTrackingMmf] else [])
                 @ [Call_ovr_GetRenderDesc 0, Call_ovr_GetRenderDesc (Suc 0), Call_ovr_GetFloat_EyeHeight]
          else [])
       @ [Call_ovr_SetTrackingOriginType_EyeLevel]"
  have cz: "calls z = calls (state_of pre) @ [Call_ovr_Create]"
    by (simp add: z_def note_call_def)
  have cy: "calls y = calls z @ (if \<not> m_useOculusRuntime z then [Call_ovr_SetBool_IsVDXR] else [])
                        @ [Call_ovr_GetTimeInSeconds, Call_QueryPerformanceFrequency]"
    by (simp add: y_def startCalibration_eq)
  have cx: "calls x = calls y @ concat (replicate 100 [Call_QueryPerformanceCounter, Call_ovr_GetTimeInSeconds])"
    by (simp add: x_def calibrate_eq)
  have cs: "calls ?s = calls x @ t"
    by (simp add: s t_def initializeSystem_calls)
  have tail: "count_list t c = 0"
    if "c = Call_QueryPerformanceFrequency \<or> c = Call_QueryPerformanceCounter \<or> c = Call_ovr_GetTimeInSeconds" for c
    using that by (auto simp: t_def)
  have c1: "count_list (calls ?s) Call_QueryPerformanceFrequency
           = count_list (calls st) Call_QueryPerformanceFrequency + 1"
    by (simp add: cs cx cy cz tail oc bringup_probe_call_def count_list_concat_replicate)
  have c2: "count_list (calls ?s) Call_QueryPerformanceCounter
           = count_list (calls st) Call_QueryPerformanceCounter + 100"
    by (simp add: cs cx cy cz tail oc bringup_probe_call_def count_list_concat_replicate)
  have c3: "count_list (calls ?s) Call_ovr_GetTimeInSeconds
           = count_list (calls st) Call_ovr_GetTimeInSeconds + 101"
    by (simp add: cs cx cy cz tail oc bringup_probe_call_def count_list_concat_replicate)
  from f m le c1 c2 c3 show ?thesis by blast
qed

lemma bringup_state:
  assumes "m_ovrSession st = None"
    and "returned (if \<not> m_isOVRLoaded st then initializeOVR e st else Returned True st) = Some True"
    and "fst (ovr_Create e) = ovrSuccess"
  shows "m_ovrSession (state_of (ensureOVRSession e st)) = Some (fst (snd (ovr_Create e)))"
    and "m_instanceCreated (state_of (ensureOVRSession e st)) = m_instanceCreated st"
    and "m_cachedHmdInfo (state_of (ensureOVRSession e st)) =
           (if SerialNumber (m_cachedHmdInfo st) \<noteq> SerialNumber (ovr_GetHmdDesc e)
            then ovr_GetHmdDesc e else m_cachedHmdInfo st)"
    and "ensureOVRSession e st =
           (if OVR_FAILURE (ovr_SetTrackingOriginType e)
            then Threw (OvrFailure (ovr_SetTrackingOriginType e)) (state_of (ensureOVRSession e st))
            else Returned True (state_of (ensureOVRSession e st)))"
proof -
  define pre where "pre = (if \<not> m_isOVRLoaded st then initializeOVR e st else Returned True st)"
  define z where "z = (note_call Call_ovr_Create (state_of pre))
                      \<lparr>m_ovrSession := Some (fst (snd (ovr_Create e))),
                       m_adapterLuid := snd (snd (ovr_Create e))\<rparr>"
  define x where "x = calibrate e 0 (startCalibration e z)"
  have en: "ensureOVRSession e st =
              (case initializeSystem e x of Threw x s \<Rightarrow> Threw x s | Returned _ s \<Rightarrow> Returned True s)"
    unfolding x_def z_def pre_def by (rule ensureOVRSession_bringup [OF assms])
  have s: "state_of (ensureOVRSession e st) = state_of (initializeSystem e x)"
    by (simp add: en state_of_case)
  have p1: "m_instanceCreated (state_of pre) = m_instanceCreated st"
    and p2: "m_cachedHmdInfo (state_of pre) = m_cachedHmdInfo st"
    by (simp_all add: pre_def initializeOVR_preserves)
  have x1: "m_ovrSession x = Some (fst (snd (ovr_Create e)))"
    and x2: "m_instanceCreated x = m_instanceCreated st"
    and x3: "m_cachedHmdInfo x = m_cachedHmdInfo st"
    by (simp_all add: x_def calibrate_eq startCalibration_eq z_def note_call_def p1 p2)
  show "m_ovrSession (state_of (ensureOVRSession e st)) = Some (fst (snd (ovr_Create e)))"
    by (simp add: s initializeSystem_preserves x1)
  show "m_instanceCreated (state_of (ensureOVRSession e st)) = m_instanceCreated st"
    by (simp add: s initializeSystem_preserves x2)
  show "m_cachedHmdInfo (state_of (ensureOVRSession e st)) =
           (if SerialNumber (m_cachedHmdInfo st) \<noteq> SerialNumber (ovr_GetHmdDesc e)
            then ovr_GetHmdDesc e else m_cachedHmdInfo st)"
    by (simp add: s initializeSystem_state cacheDevice_eq x3)
  show "ensureOVRSession e st =
           (if OVR_FAILURE (ovr_SetTrackingOriginType e)
            then Threw (OvrFailure (ovr_SetTrackingOriginType e)) (state_of (ensureOVRSession e st))
            else Returned True (state_of (ensureOVRSession e st)))"
    unfolding s by (subst en, subst initializeSystem_outcome) simp
qed

lemma ensureOVRSession_True_cases:
  assumes "ensureOVRSession e st = Returned True s"
  shows "(m_ovrSession st \<noteq> None \<and> s = st)
       \<or> (m_ovrSession st = None
           \<and> returned (if \<not> m_isOVRLoaded st then initializeOVR e st else Returned True st) = Some True
           \<and> fst (ovr_Create e) = ovrSuccess)"
proof (cases "m_ovrSession st = None")
  case False
  then show ?thesis using assms by (simp add: ensureOVRSession_def)
next
  case True
  define pre where "pre = (if \<not> m_isOVRLoaded st then initializeOVR e st else Returned True st)"
  have "returned pre = Some True \<and> fst (ovr_Create e) = ovrSuccess"
    using assms True unfolding ensureOVRSession_def pre_def [symmetric]
    by (cases pre) (auto simp: Let_def OVR_FAILURE_def split: if_splits)
  then show ?thesis using True by (simp add: pre_def)
qed


lemma ensureOVRSession_True:
  assumes "ensureOVRSession e st = Returned True s"
  shows "m_ovrSession s \<noteq> None" and "m_instanceCreated s = m_instanceCreated st"
proof -
  have s: "s = state_of (ensureOVRSession e st)" using assms by simp
  from ensureOVRSession_True_cases [OF assms]
  show "m_ovrSession s \<noteq> None"
  proof
    assume "m_ovrSession st \<noteq> None \<and> s = st" then show ?thesis by simp
  next
    assume h: "m_ovrSession st = None
           \<and> returned (if \<not> m_isOVRLoaded st then initializeOVR e st else Returned True st) = Some True
           \<and> fst (ovr_Create e) = ovrSuccess"
    then show ?thesis using bringup_state(1) [of st e] s by simp
  qed
  from ensureOVRSession_True_cases [OF assms]
  show "m_instanceCreated s = m_instanceCreated st"
  proof
    assume "m_ovrSession st \<noteq> None \<and> s = st" then show ?thesis by simp
  next
    assume h: "m_ovrSession st = None
           \<and> returned (if \<not> m_isOVRLoaded st then initializeOVR e st else Returned True st) = Some True
           \<and> fst (ovr_Create e) = ovrSuccess"
    then show ?thesis using bringup_state(2) [of st e] s by simp
  qed
qed

lemma xrGetSystem_success_cases:
  assumes "xrGetSystem e st inst getInfo systemId = Returned (XR_SUCCESS, h) st1"
  shows "gi_type getInfo = XR_TYPE_SYSTEM_GET_INFO \<and> m_instanceCreated st \<and> inst = 1
       \<and> formFactor getInfo = XR_FORM_FACTOR_HEAD_MOUNTED_DISPLAY \<and> h = 1
       \<and> (\<exists>s. ensureOVRSession e st = Returned True s \<and> st1 = s\<lparr>m_systemCreated := True\<rparr>)"
  using assms unfolding xrGetSystem_def
  by (cases "ensureOVRSession e st") (auto split: if_splits)

text \<open>
  C5. With a well-formed descriptor and a valid instance, xrGetSystem on a runtime with
  a live session returns success and the system id 1, and changes nothing but
  \<open>m_systemCreated\<close>: no outside call is made and the calibration is untouched. And
  after any successful xrGetSystem, a second well-formed call, whatever the
  collaborators would answer, returns success with the same system id and leaves the
  runtime object exactly as the first call left it.
\<close>

theorem acquire_system_idempotent:
  "(gi_type getInfo = XR_TYPE_SYSTEM_GET_INFO \<and> formFactor getInfo = XR_FORM_FACTOR_HEAD_MOUNTED_DISPLAY
      \<and> m_instanceCreated st \<and> inst = 1 \<and> m_ovrSession st \<noteq> None
     \<longrightarrow> xrGetSystem e st inst getInfo systemId = Returned (XR_SUCCESS, 1) (st\<lparr>m_systemCreated := True\<rparr>))
   \<and> (gi_type getInfo' = XR_TYPE_SYSTEM_GET_INFO \<and> formFactor getInfo' = XR_FORM_FACTOR_HEAD_MOUNTED_DISPLAY
      \<and> xrGetSystem e st inst getInfo systemId = Returned (XR_SUCCESS, h) st'
     \<longrightarrow> xrGetSystem e' st' inst getInfo' systemId' = Returned (XR_SUCCESS, h) st')"
proof (intro conjI impI)
  assume "gi_type getInfo = XR_TYPE_SYSTEM_GET_INFO \<and> formFactor getInfo = XR_FORM_FACTOR_HEAD_MOUNTED_DISPLAY
      \<and> m_instanceCreated st \<and> inst = 1 \<and> m_ovrSession st \<noteq> None"
  then show "xrGetSystem e st inst getInfo systemId = Returned (XR_SUCCESS, 1) (st\<lparr>m_systemCreated := True\<rparr>)"
    by (simp add: xrGetSystem_def ensureOVRSession_live)
next
  assume a: "gi_type getInfo' = XR_TYPE_SYSTEM_GET_INFO \<and> formFactor getInfo' = XR_FORM_FACTOR_HEAD_MOUNTED_DISPLAY
      \<and> xrGetSystem e st inst getInfo systemId = Returned (XR_SUCCESS, h) st'"
  then obtain s where v: "m_instanceCreated st" "inst = 1" "h = 1"
    and en: "ensureOVRSession e st = Returned True s" and st': "st' = s\<lparr>m_systemCreated := True\<rparr>"
    using xrGetSystem_success_cases [of e st inst getInfo systemId h st'] by blast
  have "m_ovrSession st' \<noteq> None" "m_instanceCreated st'"
    using ensureOVRSession_True [OF en] v by (simp_all add: st')
  then show "xrGetSystem e' st' inst getInfo' systemId' = Returned (XR_SUCCESS, h) st'"
    using a v by (simp add: xrGetSystem_def ensureOVRSession_live st')
qed

lemma xrGetSystem_bringup:
  assumes "gi_type getInfo = XR_TYPE_SYSTEM_GET_INFO" "formFactor getInfo = XR_FORM_FACTOR_HEAD_MOUNTED_DISPLAY"
    and "m_instanceCreated st" "inst = 1"
    and "m_ovrSession st = None"
    and "returned (if \<not> m_isOVRLoaded st then initializeOVR e st else Returned True st) = Some True"
    and "fst (ovr_Create e) = ovrSuccess"
  shows "xrGetSystem e st inst getInfo systemId =
           (if OVR_FAILURE (ovr_SetTrackingOriginType e)
            then Threw (OvrFailure (ovr_SetTrackingOriginType e)) (state_of (ensureOVRSession e st))
            else Returned (XR_SUCCESS, 1) ((state_of (ensureOVRSession e st))\<lparr>m_systemCreated := True\<rparr>))"
proof -
  define S where "S = state_of (ensureOVRSession e st)"
  have en: "ensureOVRSession e st =
              (if OVR_FAILURE (ovr_SetTrackingOriginType e)
               then Threw (OvrFailure (ovr_SetTrackingOriginType e)) S else Returned True S)"
    using bringup_state(4) [OF assms(5,6,7)] unfolding S_def .
  have "xrGetSystem e st inst getInfo systemId =
           (if OVR_FAILURE (ovr_SetTrackingOriginType e)
            then Threw (OvrFailure (ovr_SetTrackingOriginType e)) S
            else Returned (XR_SUCCESS, 1) (S\<lparr>m_systemCreated := True\<rparr>))"
    unfolding xrGetSystem_def en using assms(1-4) by simp
  then show ?thesis unfolding S_def .
qed

lemma rt_instance_ready:
  shows "m_ovrSession rt_instance = None"
    and "m_instanceCreated rt_instance"
    and "returned (if \<not> m_isOVRLoaded rt_instance then initializeOVR vd_answers rt_instance
                   else Returned True rt_instance) = Some True"
    and "returned (if \<not> m_isOVRLoaded rt_instance then initializeOVR oculus_answers rt_instance
                   else Returned True rt_instance) = Some True"
    and "returned (if \<not> m_isOVRLoaded rt_instance then initializeOVR origin_refused_answers rt_instance
                   else Returned True rt_instance) = Some True"
  by (simp_all add: rt_instance_def rt_zero_def initializeOVR_def overridePath_of_def note_call_def
        vd_answers_def oculus_answers_def origin_refused_answers_def value_or_def OVR_FAILURE_def Let_def)

lemma answers_create:
  shows "ovr_Create vd_answers = (ovrSuccess, 1, 0xABCD)"
    and "ovr_Create oculus_answers = (ovrSuccess, 1, 0xABCD)"
    and "ovr_Create origin_refused_answers = (ovrSuccess, 1, 0xABCD)"
    and "ovr_SetTrackingOriginType vd_answers = ovrSuccess"
    and "ovr_SetTrackingOriginType oculus_answers = ovrSuccess"
    and "ovr_SetTrackingOriginType origin_refused_answers = ovrError_Other"
  by (simp_all add: vd_answers_def oculus_answers_def origin_refused_answers_def)

lemma raw_offset_vd: "raw_offset vd_answers i = 50 + (if i = 42 then 0 else 1 / 2000)"
  by (simp add: raw_offset_def vd_answers_def add_divide_distrib)

lemma Min_raw_offset_vd: "Min (raw_offset vd_answers ` {..<100}) = 50"
proof (rule Min_eqI)
  show "finite (raw_offset vd_answers ` {..<100})" by simp
  show "\<And>y. y \<in> raw_offset vd_answers ` {..<100} \<Longrightarrow> 50 \<le> y"
    by (auto simp: raw_offset_vd)
  have "raw_offset vd_answers 42 = 50" by (simp add: raw_offset_vd)
  moreover have "(42::nat) \<in> {..<100}" by simp
  ultimately show "50 \<in> raw_offset vd_answers ` {..<100}" by (metis imageI)
qed

text \<open>
  The bring-up with \<open>vd_answers\<close>: the raw offset is 50 in round 42 and 50.0005 in
  the others; the stored scalar is 50.
\<close>

theorem calibration_is_minimum_offset_witness:
  "m_qpcFrequency (state_of (ensureOVRSession vd_answers rt_instance)) = 10000000
   \<and> m_ovrTimeFromQpcTimeOffset (state_of (ensureOVRSession vd_answers rt_instance)) = Fin 50
   \<and> raw_offset vd_answers 7 = 50 + 1 / 2000
   \<and> dle (m_ovrTimeFromQpcTimeOffset (state_of (ensureOVRSession vd_answers rt_instance)))
          (Fin (raw_offset vd_answers 7))
   \<and> count_list (calls (state_of (ensureOVRSession vd_answers rt_instance))) Call_QueryPerformanceFrequency = 1
   \<and> count_list (calls (state_of (ensureOVRSession vd_answers rt_instance))) Call_QueryPerformanceCounter = 100
   \<and> count_list (calls (state_of (ensureOVRSession vd_answers rt_instance))) Call_ovr_GetTimeInSeconds = 101"
proof -
  have c: "fst (ovr_Create vd_answers) = ovrSuccess" by (simp add: answers_create)
  have q: "QueryPerformanceFrequency vd_answers = 10000000" by (simp add: vd_answers_def)
  have n: "calls rt_instance = []" by (simp add: rt_instance_def rt_zero_def)
  have nz: "QueryPerformanceFrequency vd_answers \<noteq> 0" by (simp add: q)
  note t = calibration_is_minimum_offset [OF rt_instance_ready(1) rt_instance_ready(3) c nz]
  let ?s = "state_of (ensureOVRSession vd_answers rt_instance)"
  have f: "m_qpcFrequency ?s = 10000000" using t q by simp
  have "m_ovrTimeFromQpcTimeOffset ?s = Fin (Min (raw_offset vd_answers ` {..<100}))"
    using t by blast
  then have m: "m_ovrTimeFromQpcTimeOffset ?s = Fin 50"
    by (simp only: Min_raw_offset_vd)
  have r: "raw_offset vd_answers 7 = 50 + 1 / 2000" by (simp add: raw_offset_vd)
  have "\<forall>i<100. dle (m_ovrTimeFromQpcTimeOffset ?s) (Fin (raw_offset vd_answers i))"
    using t by blast
  then have d: "dle (m_ovrTimeFromQpcTimeOffset ?s) (Fin (raw_offset vd_answers 7))"
    by simp
  have c1: "count_list (calls ?s) Call_QueryPerformanceFrequency = 1"
    and c2: "count_list (calls ?s) Call_QueryPerformanceCounter = 100"
    and c3: "count_list (calls ?s) Call_ovr_GetTimeInSeconds = 101"
    using t n by simp_all
  from f m r d c1 c2 c3 show ?thesis by blast
qed

text \<open>
  A call on the runtime with a live session; and a bring-up followed by a second call
  for which the backend would refuse the tracking origin: the second call does not reach
  the backend.
\<close>

theorem acquire_system_idempotent_witness:
  "xrGetSystem vd_answers rt_live 1 gi_hmd 0 = Returned (XR_SUCCESS, 1) rt_live
   \<and> returned (xrGetSystem vd_answers rt_instance 1 gi_hmd 0) = Some (XR_SUCCESS, 1)
   \<and> xrGetSystem origin_refused_answers (state_of (xrGetSystem vd_answers rt_instance 1 gi_hmd 0)) 1 gi_hmd 5
       = Returned (XR_SUCCESS, 1) (state_of (xrGetSystem vd_answers rt_instance 1 gi_hmd 0))"
proof -
  define S where "S = state_of (xrGetSystem vd_answers rt_instance 1 gi_hmd 0)"
  have c: "fst (ovr_Create vd_answers) = ovrSuccess" by (simp add: answers_create)
  have g: "gi_type gi_hmd = XR_TYPE_SYSTEM_GET_INFO" "formFactor gi_hmd = XR_FORM_FACTOR_HEAD_MOUNTED_DISPLAY"
    by (simp_all add: gi_hmd_def)
  have x: "xrGetSystem vd_answers rt_instance 1 gi_hmd 0
             = Returned (XR_SUCCESS, 1) ((state_of (ensureOVRSession vd_answers rt_instance))\<lparr>m_systemCreated := True\<rparr>)"
    using xrGetSystem_bringup [OF g rt_instance_ready(2) refl rt_instance_ready(1) rt_instance_ready(3) c, of 0]
    by (simp add: answers_create OVR_FAILURE_def)
  have first: "xrGetSystem vd_answers rt_instance 1 gi_hmd 0 = Returned (XR_SUCCESS, 1) S"
    unfolding S_def by (simp add: x)
  have live: "m_instanceCreated rt_live" "m_ovrSession rt_live \<noteq> None" "rt_live\<lparr>m_systemCreated := True\<rparr> = rt_live"
    by (simp_all add: rt_live_def rt_zero_def)
  have a: "xrGetSystem vd_answers rt_live 1 gi_hmd 0 = Returned (XR_SUCCESS, 1) rt_live"
    using acquire_system_idempotent [where getInfo = gi_hmd and st = rt_live and inst = 1 and e = vd_answers and systemId = 0]
          g live by simp
  have b: "xrGetSystem origin_refused_answers S 1 gi_hmd 5 = Returned (XR_SUCCESS, 1) S"
    using acquire_system_idempotent [where getInfo = gi_hmd and getInfo' = gi_hmd and st = rt_instance and inst = 1 and e = vd_answers
                and systemId = 0 and h = 1 and st' = S and e' = origin_refused_answers and systemId' = 5]
          first g by simp
  have r: "returned (xrGetSystem vd_answers rt_instance 1 gi_hmd 0) = Some (XR_SUCCESS, 1)"
    by (simp add: first)
  from a r b [unfolded S_def] show ?thesis by blast
qed

subsection \<open>Service absent and fallback forbidden\<close>

text \<open>
  C3 (amended). In a bring-up that probes the service (well-formed call, no session
  live, backend not yet loaded): if the probe reports the service as not running and the
  setting \<open>allow_oculus_runtime\<close> is stored with the value 0, xrGetSystem returns the
  form-factor-unavailable error; the only outside calls are the probe and the setting
  lookup, so the backend is neither initialised nor asked for a session, and the session
  stays null. The cached identity is reset.
\<close>

theorem service_absent_fallback_forbidden:
  assumes "gi_type getInfo = XR_TYPE_SYSTEM_GET_INFO" "formFactor getInfo = XR_FORM_FACTOR_HEAD_MOUNTED_DISPLAY"
    and "m_instanceCreated st" "inst = 1"
    and "m_ovrSession st = None" "\<not> m_isOVRLoaded st"
    and "\<not> IsServiceRunning e" "getSetting e ''allow_oculus_runtime'' = Some 0"
  shows "xrGetSystem e st inst getInfo systemId =
           Returned (XR_ERROR_FORM_FACTOR_UNAVAILABLE, systemId)
             (st\<lparr>m_useOculusRuntime := True, m_cachedHmdInfo := ovrHmdDesc_zero,
                 calls := calls st @ [Call_IsServiceRunning, Call_getSetting ''allow_oculus_runtime'']\<rparr>)"
proof -
  have "initializeOVR e st =
          Returned False (st\<lparr>m_useOculusRuntime := True,
                 calls := calls st @ [Call_IsServiceRunning, Call_getSetting ''allow_oculus_runtime'']\<rparr>)"
    using assms(7,8) by (simp add: initializeOVR_def note_call_def value_or_def Let_def)
  then have "ensureOVRSession e st =
          Returned False (st\<lparr>m_useOculusRuntime := True,
                 calls := calls st @ [Call_IsServiceRunning, Call_getSetting ''allow_oculus_runtime'']\<rparr>)"
    using assms(5,6) by (simp add: ensureOVRSession_def)
  then show ?thesis
    using assms(1-4) by (simp add: xrGetSystem_def)
qed

theorem service_absent_fallback_forbidden_witness:
  "xrGetSystem no_fallback_answers rt_instance 1 gi_hmd 0 =
     Returned (XR_ERROR_FORM_FACTOR_UNAVAILABLE, 0)
       (rt_instance\<lparr>m_useOculusRuntime := True,
           calls := [Call_IsServiceRunning, Call_getSetting ''allow_oculus_runtime'']\<rparr>)"
  using service_absent_fallback_forbidden [of gi_hmd rt_instance 1 no_fallback_answers 0]
  by (simp add: gi_hmd_def rt_instance_def rt_zero_def no_fallback_answers_def vd_answers_def)

text \<open>
  C3 as stated fails when the setting is not stored: the configuration does not
  explicitly allow the fallback, line 205 takes the absent setting as true, and the
  bring-up goes on with the Oculus runtime and creates a session.
\<close>

theorem service_absent_setting_absent_counterexample:
  "\<not> IsServiceRunning oculus_answers
   \<and> getSetting oculus_answers ''allow_oculus_runtime'' = None
   \<and> returned (xrGetSystem oculus_answers rt_instance 1 gi_hmd 0) = Some (XR_SUCCESS, 1)
   \<and> m_ovrSession (state_of (xrGetSystem oculus_answers rt_instance 1 gi_hmd 0)) = Some 1"
proof -
  have c: "fst (ovr_Create oculus_answers) = ovrSuccess" by (simp add: answers_create)
  have g: "gi_type gi_hmd = XR_TYPE_SYSTEM_GET_INFO" "formFactor gi_hmd = XR_FORM_FACTOR_HEAD_MOUNTED_DISPLAY"
    by (simp_all add: gi_hmd_def)
  have x: "xrGetSystem oculus_answers rt_instance 1 gi_hmd 0
             = Returned (XR_SUCCESS, 1) ((state_of (ensureOVRSession oculus_answers rt_instance))\<lparr>m_systemCreated := True\<rparr>)"
    using xrGetSystem_bringup [OF g rt_instance_ready(2) refl rt_instance_ready(1) rt_instance_ready(4) c, of 0]
    by (simp add: answers_create OVR_FAILURE_def)
  have s: "m_ovrSession (state_of (ensureOVRSession oculus_answers rt_instance)) = Some 1"
    using bringup_state(1) [OF rt_instance_ready(1) rt_instance_ready(4) c] by (simp add: answers_create)
  have a: "\<not> IsServiceRunning oculus_answers" "getSetting oculus_answers ''allow_oculus_runtime'' = None"
    by (simp_all add: oculus_answers_def vd_answers_def)
  show ?thesis using a by (simp add: x s)
qed


subsection \<open>Failure paths of the bring-up\<close>













subsection \<open>Device caching\<close>

text \<open>
  C6. initializeSystem, whether it returns or the backend refuses the tracking origin:
  when the serial number queried equals the cached one, the runtime object is unchanged
  but for the two outside calls (descriptor query, tracking origin); when it differs,
  the cached identity becomes the queried descriptor, the eye-tracking mode is chosen
  from the setting and the eye-tracking source, the refresh rate is the descriptor's,
  both frame durations are its reciprocal (not finite at a rate of 0), the render
  information of each eye is the backend's answer for the descriptor's default field of
  view of that eye, each field-of-view angle is the arctangent of the matching tangent
  of that answer, negated for left and down, and the floor height is the backend's eye
  height. In both cases the last outside call sets the tracking origin to eye level,
  exactly once, and the render description is queried exactly when the serial number
  differs.
\<close>

theorem device_cache_recomputed_on_serial_change:
  "(SerialNumber (m_cachedHmdInfo st) = SerialNumber (ovr_GetHmdDesc e) \<longrightarrow>
      state_of (initializeSystem e st)
        = st\<lparr>calls := calls st @ [Call_ovr_GetHmdDesc, Call_ovr_SetTrackingOriginType_EyeLevel]\<rparr>)
   \<and> (SerialNumber (m_cachedHmdInfo st) \<noteq> SerialNumber (ovr_GetHmdDesc e) \<longrightarrow>
        m_cachedHmdInfo (state_of (initializeSystem e st)) = ovr_GetHmdDesc e
      \<and> m_eyeTrackingType (state_of (initializeSystem e st)) =
          (if value_or (getSetting e ''simulate_eye_tracking'') 0 = 0
           then (if initializeEyeTrackingMmf e then EyeTracking_Mmf else EyeTracking_None)
           else EyeTracking_Simulated)
      \<and> m_displayRefreshRate (state_of (initializeSystem e st)) = DisplayRefreshRate (ovr_GetHmdDesc e)
      \<and> m_idealFrameDuration (state_of (initializeSystem e st)) =
          (if DisplayRefreshRate (ovr_GetHmdDesc e) = 0 then INFINITY
           else Fin (1 / DisplayRefreshRate (ovr_GetHmdDesc e)))
      \<and> m_predictedFrameDuration (state_of (initializeSystem e st)) =
          (if DisplayRefreshRate (ovr_GetHmdDesc e) = 0 then INFINITY
           else Fin (1 / DisplayRefreshRate (ovr_GetHmdDesc e)))
      \<and> m_cachedEyeInfo (state_of (initializeSystem e st)) =
          (m_cachedEyeInfo st)
            (0 := ovr_GetRenderDesc e 0 (DefaultEyeFov (ovr_GetHmdDesc e) 0),
             1 := ovr_GetRenderDesc e 1 (DefaultEyeFov (ovr_GetHmdDesc e) 1))
      \<and> m_cachedEyeFov (state_of (initializeSystem e st)) =
          (m_cachedEyeFov st)
            (0 := \<lparr>angleLeft = - arctan (LeftTan (Fov (ovr_GetRenderDesc e 0 (DefaultEyeFov (ovr_GetHmdDesc e) 0)))),
                   angleRight = arctan (RightTan (Fov (ovr_GetRenderDesc e 0 (DefaultEyeFov (ovr_GetHmdDesc e) 0)))),
                   angleUp = arctan (UpTan (Fov (ovr_GetRenderDesc e 0 (DefaultEyeFov (ovr_GetHmdDesc e) 0)))),
                   angleDown = - arctan (DownTan (Fov (ovr_GetRenderDesc e 0 (DefaultEyeFov (ovr_GetHmdDesc e) 0))))\<rparr>,
             1 := \<lparr>angleLeft = - arctan (LeftTan (Fov (ovr_GetRenderDesc e 1 (DefaultEyeFov (ovr_GetHmdDesc e) 1)))),
                   angleRight = arctan (RightTan (Fov (ovr_GetRenderDesc e 1 (DefaultEyeFov (ovr_GetHmdDesc e) 1)))),
                   angleUp = arctan (UpTan (Fov (ovr_GetRenderDesc e 1 (DefaultEyeFov (ovr_GetHmdDesc e) 1)))),
                   angleDown = - arctan (DownTan (Fov (ovr_GetRenderDesc e 1 (DefaultEyeFov (ovr_GetHmdDesc e) 1))))\<rparr>)
      \<and> m_floorHeight (state_of (initializeSystem e st)) = ovr_GetFloat_EyeHeight e)
   \<and> last (calls (state_of (initializeSystem e st))) = Call_ovr_SetTrackingOriginType_EyeLevel
   \<and> count_list (calls (state_of (initializeSystem e st))) Call_ovr_SetTrackingOriginType_EyeLevel
       = count_list (calls st) Call_ovr_SetTrackingOriginType_EyeLevel + 1
   \<and> count_list (calls (state_of (initializeSystem e st))) (Call_ovr_GetRenderDesc 0)
       = count_list (calls st) (Call_ovr_GetRenderDesc 0)
         + (if SerialNumber (m_cachedHmdInfo st) \<noteq> SerialNumber (ovr_GetHmdDesc e) then 1 else 0)"
proof -
  let ?s = "state_of (initializeSystem e st)"
  let ?d = "SerialNumber (m_cachedHmdInfo st) \<noteq> SerialNumber (ovr_GetHmdDesc e)"
  have a: "\<not> ?d \<longrightarrow>
      ?s = st\<lparr>calls := calls st @ [Call_ovr_GetHmdDesc, Call_ovr_SetTrackingOriginType_EyeLevel]\<rparr>"
    by (simp add: initializeSystem_state)
  have b1: "?d \<longrightarrow> m_cachedHmdInfo ?s = ovr_GetHmdDesc e"
    by (simp add: initializeSystem_state cacheDevice_eq)
  have b2: "?d \<longrightarrow> m_eyeTrackingType ?s =
          (if value_or (getSetting e ''simulate_eye_tracking'') 0 = 0
           then (if initializeEyeTrackingMmf e then EyeTracking_Mmf else EyeTracking_None)
           else EyeTracking_Simulated)"
    by (simp add: initializeSystem_state cacheDevice_eq)
  have b3: "?d \<longrightarrow> m_displayRefreshRate ?s = DisplayRefreshRate (ovr_GetHmdDesc e)"
    by (simp add: initializeSystem_state cacheDevice_eq)
  have b4: "?d \<longrightarrow> m_idealFrameDuration ?s =
          (if DisplayRefreshRate (ovr_GetHmdDesc e) = 0 then INFINITY
           else Fin (1 / DisplayRefreshRate (ovr_GetHmdDesc e)))"
    by (simp add: initializeSystem_state cacheDevice_eq one_over_def)
  have b5: "?d \<longrightarrow> m_predictedFrameDuration ?s =
          (if DisplayRefreshRate (ovr_GetHmdDesc e) = 0 then INFINITY
           else Fin (1 / DisplayRefreshRate (ovr_GetHmdDesc e)))"
    by (simp add: initializeSystem_state cacheDevice_eq one_over_def)
  have b6: "?d \<longrightarrow> m_cachedEyeInfo ?s =
          (m_cachedEyeInfo st)
            (0 := ovr_GetRenderDesc e 0 (DefaultEyeFov (ovr_GetHmdDesc e) 0),
             1 := ovr_GetRenderDesc e 1 (DefaultEyeFov (ovr_GetHmdDesc e) 1))"
    by (simp add: initializeSystem_state cacheDevice_eq)
  have b7: "?d \<longrightarrow> m_cachedEyeFov ?s =
          (m_cachedEyeFov st)
            (0 := \<lparr>angleLeft = - arctan (LeftTan (Fov (ovr_GetRenderDesc e 0 (DefaultEyeFov (ovr_GetHmdDesc e) 0)))),
                   angleRight = arctan (RightTan (Fov (ovr_GetRenderDesc e 0 (DefaultEyeFov (ovr_GetHmdDesc e) 0)))),
                   angleUp = arctan (UpTan (Fov (ovr_GetRenderDesc e 0 (DefaultEyeFov (ovr_GetHmdDesc e) 0)))),
                   angleDown = - arctan (DownTan (Fov (ovr_GetRenderDesc e 0 (DefaultEyeFov (ovr_GetHmdDesc e) 0))))\<rparr>,
             1 := \<lparr>angleLeft = - arctan (LeftTan (Fov (ovr_GetRenderDesc e 1 (DefaultEyeFov (ovr_GetHmdDesc e) 1)))),
                   angleRight = arctan (RightTan (Fov (ovr_GetRenderDesc e 1 (DefaultEyeFov (ovr_GetHmdDesc e) 1)))),
                   angleUp = arctan (UpTan (Fov (ovr_GetRenderDesc e 1 (DefaultEyeFov (ovr_GetHmdDesc e) 1)))),
                   angleDown = - arctan (DownTan (Fov (ovr_GetRenderDesc e 1 (DefaultEyeFov (ovr_GetHmdDesc e) 1))))\<rparr>)"
    by (simp add: initializeSystem_state cacheDevice_eq eyeFov_of_def)
  have b8: "?d \<longrightarrow> m_floorHeight ?s = ovr_GetFloat_EyeHeight e"
    by (simp add: initializeSystem_state cacheDevice_eq)
  have c: "last (calls ?s) = Call_ovr_SetTrackingOriginType_EyeLevel"
    by (simp add: initializeSystem_calls)
  have d: "count_list (calls ?s) Call_ovr_SetTrackingOriginType_EyeLevel
       = count_list (calls st) Call_ovr_SetTrackingOriginType_EyeLevel + 1"
    by (simp add: initializeSystem_calls)
  have f: "count_list (calls ?s) (Call_ovr_GetRenderDesc 0)
       = count_list (calls st) (Call_ovr_GetRenderDesc 0) + (if ?d then 1 else 0)"
    by (simp add: initializeSystem_calls)
  from a b1 b2 b3 b4 b5 b6 b7 b8 c d f show ?thesis by blast
qed

text \<open>
  The same headset as cached (nothing changes), and a first bring-up with four distinct
  tangents that differ between the eyes.
\<close>

theorem device_cache_recomputed_on_serial_change_witness:
  "state_of (initializeSystem vd_answers rt_live)
     = rt_live\<lparr>calls := [Call_ovr_GetHmdDesc, Call_ovr_SetTrackingOriginType_EyeLevel]\<rparr>
   \<and> m_cachedHmdInfo (state_of (initializeSystem vd_answers rt_instance)) = hmd_quest
   \<and> m_eyeTrackingType (state_of (initializeSystem vd_answers rt_instance)) = EyeTracking_Mmf
   \<and> m_displayRefreshRate (state_of (initializeSystem vd_answers rt_instance)) = 90
   \<and> m_idealFrameDuration (state_of (initializeSystem vd_answers rt_instance)) = Fin (1 / 90)
   \<and> m_predictedFrameDuration (state_of (initializeSystem vd_answers rt_instance)) = Fin (1 / 90)
   \<and> Fov (m_cachedEyeInfo (state_of (initializeSystem vd_answers rt_instance)) 0)
       = \<lparr>UpTan = 1, DownTan = 2, LeftTan = 3, RightTan = 4\<rparr>
   \<and> Fov (m_cachedEyeInfo (state_of (initializeSystem vd_answers rt_instance)) 1)
       = \<lparr>UpTan = 1, DownTan = 2, LeftTan = 4, RightTan = 3\<rparr>
   \<and> m_cachedEyeFov (state_of (initializeSystem vd_answers rt_instance)) 0
       = \<lparr>angleLeft = - arctan 3, angleRight = arctan 4, angleUp = pi / 4, angleDown = - arctan 2\<rparr>
   \<and> m_cachedEyeFov (state_of (initializeSystem vd_answers rt_instance)) 1
       = \<lparr>angleLeft = - arctan 4, angleRight = arctan 3, angleUp = pi / 4, angleDown = - arctan 2\<rparr>
   \<and> m_floorHeight (state_of (initializeSystem vd_answers rt_instance)) = 1.675
   \<and> last (calls (state_of (initializeSystem vd_answers rt_live))) = Call_ovr_SetTrackingOriginType_EyeLevel
   \<and> last (calls (state_of (initializeSystem vd_answers rt_instance))) = Call_ovr_SetTrackingOriginType_EyeLevel"
proof -
  have same: "SerialNumber (m_cachedHmdInfo rt_live) = SerialNumber (ovr_GetHmdDesc vd_answers)"
    and diff: "SerialNumber (m_cachedHmdInfo rt_instance) \<noteq> SerialNumber (ovr_GetHmdDesc vd_answers)"
    by (simp_all add: rt_live_def rt_instance_def rt_zero_def vd_answers_def hmd_quest_def ovrHmdDesc_zero_def)
  have l: "calls rt_live = []" by (simp add: rt_live_def rt_zero_def)
  have v: "ovr_GetHmdDesc vd_answers = hmd_quest" "getSetting vd_answers ''simulate_eye_tracking'' = None"
      "initializeEyeTrackingMmf vd_answers" "ovr_GetFloat_EyeHeight vd_answers = 1.675"
      "Fov (ovr_GetRenderDesc vd_answers 0 (DefaultEyeFov hmd_quest 0))
         = \<lparr>UpTan = 1, DownTan = 2, LeftTan = 3, RightTan = 4\<rparr>"
      "Fov (ovr_GetRenderDesc vd_answers (Suc 0) (DefaultEyeFov hmd_quest (Suc 0)))
         = \<lparr>UpTan = 1, DownTan = 2, LeftTan = 4, RightTan = 3\<rparr>"
      "DisplayRefreshRate hmd_quest = 90"
    by (simp_all add: vd_answers_def hmd_quest_def)
  note t1 = device_cache_recomputed_on_serial_change [of rt_live vd_answers] and t2 = device_cache_recomputed_on_serial_change [of rt_instance vd_answers]
  let ?s = "state_of (initializeSystem vd_answers rt_instance)"
  have a: "state_of (initializeSystem vd_answers rt_live)
     = rt_live\<lparr>calls := [Call_ovr_GetHmdDesc, Call_ovr_SetTrackingOriginType_EyeLevel]\<rparr>"
    using t1 same l by simp
  have b: "m_cachedHmdInfo ?s = hmd_quest" "m_eyeTrackingType ?s = EyeTracking_Mmf"
      "m_displayRefreshRate ?s = 90" "m_idealFrameDuration ?s = Fin (1 / 90)"
      "m_predictedFrameDuration ?s = Fin (1 / 90)" "m_floorHeight ?s = 1.675"
    using t2 diff v by (simp_all add: value_or_def)
  have i: "m_cachedEyeInfo ?s =
          (m_cachedEyeInfo rt_instance)
            (0 := ovr_GetRenderDesc vd_answers 0 (DefaultEyeFov hmd_quest 0),
             1 := ovr_GetRenderDesc vd_answers 1 (DefaultEyeFov hmd_quest 1))"
    using t2 diff v(1) by simp
  have i0: "Fov (m_cachedEyeInfo ?s 0) = \<lparr>UpTan = 1, DownTan = 2, LeftTan = 3, RightTan = 4\<rparr>"
    and i1: "Fov (m_cachedEyeInfo ?s 1) = \<lparr>UpTan = 1, DownTan = 2, LeftTan = 4, RightTan = 3\<rparr>"
    by (simp_all add: i v)
  have f: "m_cachedEyeFov ?s =
          (m_cachedEyeFov rt_instance)
            (0 := \<lparr>angleLeft = - arctan 3, angleRight = arctan 4, angleUp = pi / 4, angleDown = - arctan 2\<rparr>,
             1 := \<lparr>angleLeft = - arctan 4, angleRight = arctan 3, angleUp = pi / 4, angleDown = - arctan 2\<rparr>)"
    using t2 diff v by (simp add: arctan_one)
  have f0: "m_cachedEyeFov ?s 0
       = \<lparr>angleLeft = - arctan 3, angleRight = arctan 4, angleUp = pi / 4, angleDown = - arctan 2\<rparr>"
    and f1: "m_cachedEyeFov ?s 1
       = \<lparr>angleLeft = - arctan 4, angleRight = arctan 3, angleUp = pi / 4, angleDown = - arctan 2\<rparr>"
    by (simp_all add: f)
  have c: "last (calls (state_of (initializeSystem vd_answers rt_live))) = Call_ovr_SetTrackingOriginType_EyeLevel"
     "last (calls ?s) = Call_ovr_SetTrackingOriginType_EyeLevel"
    using t1 t2 by blast+
  from a b i0 i1 f0 f1 c show ?thesis by blast
qed

end
